theory Spec2Isabelle
  imports
    Main
    "HOL-Library.Char_ord"
    "HOL-Library.List_Lexorder"
    "HOL-Library.Multiset"
begin

section \<open>The primary/replica demo application \<open>scalr.py\<close>\<close>

text \<open>
  The development embeds the connection layer of \<^verbatim>\<open>src/app/scalr.py\<close>: the classes
  \<^verbatim>\<open>DBConnectionInformation\<close> and \<^verbatim>\<open>ConnectionInfo\<close>. The program is Python 2
  (it indexes exceptions, \<^verbatim>\<open>e[0]\<close>). Its three collaborators live outside the
  repository and are parameters of the model: the files of the configuration directory,
  the name resolver behind \<^verbatim>\<open>socket.gethostbyname_ex\<close>, and the \<^verbatim>\<open>MySQLdb\<close> client
  with the server it talks to.
\<close>

subsection \<open>Constants\<close>

definition CONFIG_PATH :: string where
  "CONFIG_PATH = ''/var/config''"

definition VALUE_LENGTH :: nat where
  "VALUE_LENGTH = 200"

definition MYSQL_ERROR_CODE_UNKNOWN_DB :: int where
  "MYSQL_ERROR_CODE_UNKNOWN_DB = 1049"

definition MYSQL_ERROR_CODE_NO_HOST :: int where
  "MYSQL_ERROR_CODE_NO_HOST = 2005"

definition MYSQL_ERROR_CODE_ACCESS_DENIED :: int where
  "MYSQL_ERROR_CODE_ACCESS_DENIED = 1045"

subsection \<open>Strings\<close>

text \<open>
  A Python string is a \<^typ>\<open>string\<close>, one \<^typ>\<open>char\<close> for each of its characters.
  \<^verbatim>\<open>str.strip()\<close> removes the leading and the trailing run of the six ASCII whitespace
  characters (space, tab, line feed, carriage return, vertical tab, form feed).
\<close>

definition is_space :: "char \<Rightarrow> bool" where
  "is_space c = (c \<in> set [CHR 0x20, CHR 0x09, CHR 0x0A, CHR 0x0D, CHR 0x0B, CHR 0x0C])"

definition strip :: "string \<Rightarrow> string" where
  "strip s = rev (dropWhile is_space (rev (dropWhile is_space s)))"

text \<open>\<^verbatim>\<open>sep.join(xs)\<close>.\<close>

fun join :: "string \<Rightarrow> string list \<Rightarrow> string" where
  "join sep [] = []"
| "join sep [x] = x"
| "join sep (x # y # ys) = x @ sep @ join sep (y # ys)"

text \<open>
  \<^verbatim>\<open>'{0}'.format(n)\<close> for an integer \<open>n\<close>: its decimal digits, most significant first,
  after a minus sign when it is negative.
\<close>

definition digit_char :: "nat \<Rightarrow> char" where
  "digit_char d = char_of (48 + d)"

fun str_nat :: "nat \<Rightarrow> string" where
  "str_nat n = (if n < 10 then [digit_char n] else str_nat (n div 10) @ [digit_char (n mod 10)])"

declare str_nat.simps [simp del]

definition str_int :: "int \<Rightarrow> string" where
  "str_int i = (if i < 0 then CHR ''-'' # str_nat (nat (- i)) else str_nat (nat i))"

text \<open>The value of a decimal digit, to read a rendered number back.\<close>

definition digit_value :: "char \<Rightarrow> nat" where
  "digit_value ch = of_char ch - 48"

text \<open>
  \<^verbatim>\<open>os.path.join(a, b)\<close> on a POSIX system: an absolute \<open>b\<close> replaces \<open>a\<close>, otherwise the
  two are joined by exactly one slash.
\<close>

definition path_join :: "string \<Rightarrow> string \<Rightarrow> string" where
  "path_join a b =
     (if b \<noteq> [] \<and> hd b = CHR ''/'' then b
      else if a = [] \<or> last a = CHR ''/'' then a @ b
      else a @ ''/'' @ b)"

subsection \<open>Descriptors and errors\<close>

text \<open>
  An instance of \<^verbatim>\<open>DBConnectionInformation\<close> holds the four constructor arguments and is
  never assigned to again.
\<close>

record descriptor =
  hostname :: string
  username :: string
  password :: string
  master :: bool

text \<open>
  The exceptions of \<^verbatim>\<open>MySQLdb\<close>: an \<^verbatim>\<open>OperationalError\<close> carries the server's status
  code (\<^verbatim>\<open>e[0]\<close>) and its message; every other class of the library is \<open>OtherDBError\<close>,
  which no \<^verbatim>\<open>except\<close> clause of the program catches.
\<close>

datatype db_exn = OperationalError int string | OtherDBError string

text \<open>
  The exceptions of \<^verbatim>\<open>socket.gethostbyname_ex\<close>: \<^verbatim>\<open>socket.gaierror\<close> and
  \<^verbatim>\<open>socket.herror\<close>, each with a number and a message, and every other exception the call
  can raise (\<^verbatim>\<open>socket.error\<close>, \<^verbatim>\<open>TypeError\<close>).
\<close>

datatype socket_exn = GaiError int string | HError int string | OtherSocketError string

text \<open>
  What a function of the program can raise: its own two exception classes, an exception of
  the database client or of the resolver that passes through uncaught, and the two
  built-in errors of attribute lookup and tuple indexing.
\<close>

datatype error =
    NoConnectionInfo
  | NoConnectionEstablished descriptor string
  | DBError db_exn
  | SocketError socket_exn
  | AttributeError string
  | IndexError

subsection \<open>The configuration resolver\<close>

text \<open>
  The configuration directory is a partial map from path to file content; \<^verbatim>\<open>open\<close>
  raises \<^verbatim>\<open>IOError\<close> exactly on the paths outside its domain. A \<^verbatim>\<open>ConnectionInfo\<close> object is
  the map of the attributes set on it so far.
\<close>

type_synonym filesystem = "string \<rightharpoonup> string"

type_synonym conninfo = "string \<rightharpoonup> string"

definition config_entries :: "(string \<times> string) list" where
  "config_entries =
     [(''mysql-username'', ''username''), (''mysql-password'', ''password''),
      (''mysql-master'', ''_master''), (''mysql-slave'', ''_slave'')]"

text \<open>
  The loop of \<^verbatim>\<open>ConnectionInfo.__init__\<close> over the remaining (file name, attribute) pairs:
  the first file that cannot be opened raises \<^verbatim>\<open>NoConnectionInfo\<close> and ends the
  construction.
\<close>

fun load_entries :: "filesystem \<Rightarrow> string \<Rightarrow> (string \<times> string) list \<Rightarrow> conninfo \<Rightarrow> error + conninfo" where
  "load_entries fs path [] self = Inr self"
| "load_entries fs path ((fname, attr) # rest) self =
     (case fs (path_join path fname) of
        None \<Rightarrow> Inl NoConnectionInfo
      | Some content \<Rightarrow> load_entries fs path rest (self(attr \<mapsto> strip content)))"

definition ConnectionInfo_init :: "filesystem \<Rightarrow> string \<Rightarrow> error + conninfo" where
  "ConnectionInfo_init fs path = load_entries fs path config_entries Map.empty"

definition getattr :: "conninfo \<Rightarrow> string \<Rightarrow> error + string" where
  "getattr self name = (case self name of None \<Rightarrow> Inl (AttributeError name) | Some v \<Rightarrow> Inr v)"

text \<open>
  \<^verbatim>\<open>_connection_information(master)\<close>: the arguments of the constructor call, read from
  left to right.
\<close>

definition connection_information :: "conninfo \<Rightarrow> bool \<Rightarrow> error + descriptor" where
  "connection_information self m =
     (case getattr self (if m then ''_master'' else ''_slave'') of
        Inl e \<Rightarrow> Inl e
      | Inr h \<Rightarrow>
         (case getattr self ''username'' of
            Inl e \<Rightarrow> Inl e
          | Inr u \<Rightarrow>
             (case getattr self ''password'' of
                Inl e \<Rightarrow> Inl e
              | Inr p \<Rightarrow> Inr \<lparr>hostname = h, username = u, password = p, master = m\<rparr>)))"

subsection \<open>Object identity\<close>

text \<open>
  Each read of the properties \<^verbatim>\<open>master\<close> and \<^verbatim>\<open>slave\<close> constructs a new
  \<^verbatim>\<open>DBConnectionInformation\<close> object. The heap lists the objects constructed so far; a
  reference is an index into it, and a new object takes the next index.
\<close>

type_synonym ref = nat

type_synonym heap = "descriptor list"

definition new_object :: "descriptor \<Rightarrow> heap \<Rightarrow> ref \<times> heap" where
  "new_object d h = (length h, h @ [d])"

definition deref :: "heap \<Rightarrow> ref \<Rightarrow> descriptor option" where
  "deref h r = (if r < length h then Some (h ! r) else None)"

definition ConnectionInfo_property :: "conninfo \<Rightarrow> bool \<Rightarrow> heap \<Rightarrow> (error + ref) \<times> heap" where
  "ConnectionInfo_property self m h =
     (case connection_information self m of
        Inl e \<Rightarrow> (Inl e, h)
      | Inr d \<Rightarrow> (case new_object d h of (r, h') \<Rightarrow> (Inr r, h')))"

definition ConnectionInfo_master :: "conninfo \<Rightarrow> heap \<Rightarrow> (error + ref) \<times> heap" where
  "ConnectionInfo_master self h = ConnectionInfo_property self True h"

definition ConnectionInfo_slave :: "conninfo \<Rightarrow> heap \<Rightarrow> (error + ref) \<times> heap" where
  "ConnectionInfo_slave self h = ConnectionInfo_property self False h"

text \<open>
  \<^verbatim>\<open>obj.ips\<close> without a call is a bound method: the object it was read from and the
  function. Two bound methods of this class are equal when they have the same function and
  the same object (the class defines no \<^verbatim>\<open>__eq__\<close>, so objects compare by identity).
\<close>

datatype bound_method = BoundMethod (im_self: ref) (im_func: string)

text \<open>
  \<^verbatim>\<open>replicating()\<close> returns \<^verbatim>\<open>self.master.ips != self.slave.ips\<close>: it reads the two
  properties, takes the bound method \<^verbatim>\<open>ips\<close> of each object, and compares the two bound
  methods. Neither method is called.
\<close>

definition replicating :: "conninfo \<Rightarrow> heap \<Rightarrow> (error + bool) \<times> heap" where
  "replicating self h =
     (case ConnectionInfo_master self h of
        (Inl e, h1) \<Rightarrow> (Inl e, h1)
      | (Inr m, h1) \<Rightarrow>
         (case ConnectionInfo_slave self h1 of
            (Inl e, h2) \<Rightarrow> (Inl e, h2)
          | (Inr s, h2) \<Rightarrow> (Inr (BoundMethod m ''ips'' \<noteq> BoundMethod s ''ips''), h2)))"

subsection \<open>Name resolution\<close>

text \<open>
  \<^verbatim>\<open>socket.gethostbyname_ex\<close> is a parameter: for a host name it gives the triple (name,
  aliases, addresses), or the exception it raises.
\<close>

type_synonym resolver = "string \<Rightarrow> socket_exn + (string \<times> string list \<times> string list)"

text \<open>
  \<^verbatim>\<open>ips\<close>: the \<^verbatim>\<open>except\<close> clause names \<^verbatim>\<open>socket.gaierror\<close> only and formats the message of the
  exception (\<^verbatim>\<open>e[1]\<close>); an exception of another class leaves the function.
\<close>

definition ips :: "resolver \<Rightarrow> descriptor \<Rightarrow> error + string" where
  "ips gethostbyname_ex self =
     (case gethostbyname_ex (hostname self) of
        Inr (name, aliases, addrs) \<Rightarrow> Inr (join '','' (sort addrs))
      | Inl (GaiError errno msg) \<Rightarrow> Inr (''Resolution error: '' @ msg)
      | Inl e \<Rightarrow> Inl (SocketError e))"

subsection \<open>The database client\<close>

text \<open>
  \<^verbatim>\<open>cursor.execute(query, args)\<close> receives a query text and at most one argument, an
  integer or a string. A row of a result set is the tuple of its columns.
\<close>

datatype arg = NoArgs | IntArg int | StrArg string

type_synonym statement = "string \<times> arg"

type_synonym row = "string list"

text \<open>
  The client is a parameter. Over its own state \<open>'w\<close> (the server, the network, the open
  connection) it answers the three calls the program makes: \<^verbatim>\<open>MySQLdb.connect(host, user,
  passwd)\<close> and \<^verbatim>\<open>cursor.execute\<close> either raise an exception or return, and change the state
  either way; \<^verbatim>\<open>cursor.fetchall()\<close> returns the rows that the last query left in the cursor.
\<close>

record 'w client =
  cl_connect :: "string \<Rightarrow> string \<Rightarrow> string \<Rightarrow> 'w \<Rightarrow> db_exn option \<times> 'w"
  cl_execute :: "statement \<Rightarrow> 'w \<Rightarrow> db_exn option \<times> 'w"
  cl_fetchall :: "'w \<Rightarrow> row list"

text \<open>
  A run threads the client's state and records, in order, every statement handed to
  \<^verbatim>\<open>cursor.execute\<close> together with its outcome: \<open>None\<close> when the call returned, the
  exception when it raised.
\<close>

record 'w session =
  world :: 'w
  issued :: "(statement \<times> db_exn option) list"

type_synonym ('w, 'a) action = "'w session \<Rightarrow> (error + 'a) \<times> 'w session"

text \<open>Two statements in sequence: an exception of the first skips the second.\<close>

definition then_do :: "('w, 'a) action \<Rightarrow> ('a \<Rightarrow> ('w, 'b) action) \<Rightarrow> ('w, 'b) action" where
  "then_do m f s = (case m s of (Inl e, s') \<Rightarrow> (Inl e, s') | (Inr x, s') \<Rightarrow> f x s')"

definition execute :: "'w client \<Rightarrow> statement \<Rightarrow> ('w, unit) action" where
  "execute c stmt s =
     (case cl_execute c stmt (world s) of
        (None, w') \<Rightarrow> (Inr (), \<lparr>world = w', issued = issued s @ [(stmt, None)]\<rparr>)
      | (Some e, w') \<Rightarrow> (Inl (DBError e), \<lparr>world = w', issued = issued s @ [(stmt, Some e)]\<rparr>))"

definition CREATE_DATABASE :: statement where
  "CREATE_DATABASE = (''CREATE DATABASE IF NOT EXISTS ScalrTest'', NoArgs)"

definition USE_DATABASE :: statement where
  "USE_DATABASE = (''USE ScalrTest'', NoArgs)"

definition CREATE_TABLE :: statement where
  "CREATE_TABLE =
     (''CREATE TABLE IF NOT EXISTS ScalrValues (val CHAR(%s) CHARACTER SET utf8 COLLATE utf8_bin)'',
      IntArg (int VALUE_LENGTH))"

definition SELECT_VALUES :: statement where
  "SELECT_VALUES = (''SELECT val FROM ScalrValues'', NoArgs)"

definition INSERT_VALUE :: "string \<Rightarrow> statement" where
  "INSERT_VALUE v = (''INSERT INTO ScalrValues (val) VALUES (%s)'', StrArg v)"

definition COMMIT :: statement where
  "COMMIT = (''COMMIT'', NoArgs)"

text \<open>The three diagnostics of \<^verbatim>\<open>get_cursor\<close>, each a \<^verbatim>\<open>format\<close> expression of the source.\<close>

definition no_host_message :: "descriptor \<Rightarrow> string" where
  "no_host_message self = ''The host ['' @ hostname self @ ''] does not exist.''"

definition access_denied_message :: "descriptor \<Rightarrow> string" where
  "access_denied_message self =
     ''The username ['' @ username self @ ''] or password ['' @ password self @ ''] is incorrect.''"

definition other_code_message :: "int \<Rightarrow> string" where
  "other_code_message error_code = ''An error occured: Code '' @ str_int error_code"

text \<open>
  \<^verbatim>\<open>get_cursor\<close>: only the call of \<^verbatim>\<open>connect\<close> stands inside the \<^verbatim>\<open>try\<close>, and only an
  \<^verbatim>\<open>OperationalError\<close> is caught there. The statements after it run unguarded. The cursor
  itself has no content of its own in the model: the session is the open connection.
\<close>

definition get_cursor :: "'w client \<Rightarrow> descriptor \<Rightarrow> ('w, unit) action" where
  "get_cursor c self s =
     (case cl_connect c (hostname self) (username self) (password self) (world s) of
        (Some (OperationalError error_code msg), w') \<Rightarrow>
          (if error_code = MYSQL_ERROR_CODE_NO_HOST
             then (Inl (NoConnectionEstablished self (no_host_message self)), s\<lparr>world := w'\<rparr>)
           else if error_code = MYSQL_ERROR_CODE_ACCESS_DENIED
             then (Inl (NoConnectionEstablished self (access_denied_message self)), s\<lparr>world := w'\<rparr>)
           else (Inl (NoConnectionEstablished self (other_code_message error_code)),
                 s\<lparr>world := w'\<rparr>))
      | (Some (OtherDBError m), w') \<Rightarrow> (Inl (DBError (OtherDBError m)), s\<lparr>world := w'\<rparr>)
      | (None, w') \<Rightarrow>
          (if master self
           then then_do (execute c CREATE_DATABASE)
                  (\<lambda>_. then_do (execute c USE_DATABASE) (\<lambda>_. execute c CREATE_TABLE))
                  (s\<lparr>world := w'\<rparr>)
           else execute c USE_DATABASE (s\<lparr>world := w'\<rparr>)))"

text \<open>\<^verbatim>\<open>value[0]\<close> on a row, and the list comprehension over the rows.\<close>

fun first_column :: "row \<Rightarrow> error + string" where
  "first_column [] = Inl IndexError"
| "first_column (x # xs) = Inr x"

fun first_columns :: "row list \<Rightarrow> error + string list" where
  "first_columns [] = Inr []"
| "first_columns (r # rs) =
     (case first_column r of
        Inl e \<Rightarrow> Inl e
      | Inr v \<Rightarrow> (case first_columns rs of Inl e \<Rightarrow> Inl e | Inr vs \<Rightarrow> Inr (v # vs)))"

text \<open>
  \<^verbatim>\<open>get_values\<close>: the \<^verbatim>\<open>try\<close> holds \<^verbatim>\<open>get_cursor\<close> and the query; the handler catches an
  \<^verbatim>\<open>OperationalError\<close>, returns the empty list on the unknown-database code and raises the
  exception again otherwise; the \<^verbatim>\<open>else\<close> branch reads the rows.
\<close>

definition get_values :: "'w client \<Rightarrow> descriptor \<Rightarrow> ('w, string list) action" where
  "get_values c self s =
     (case then_do (get_cursor c self) (\<lambda>_. execute c SELECT_VALUES) s of
        (Inl (DBError (OperationalError code msg)), s') \<Rightarrow>
          (if code = MYSQL_ERROR_CODE_UNKNOWN_DB then (Inr [], s')
           else (Inl (DBError (OperationalError code msg)), s'))
      | (Inl e, s') \<Rightarrow> (Inl e, s')
      | (Inr _, s') \<Rightarrow> (first_columns (cl_fetchall c (world s')), s'))"

text \<open>\<^verbatim>\<open>insert\<close>: nothing is caught.\<close>

definition insert_value :: "'w client \<Rightarrow> descriptor \<Rightarrow> string \<Rightarrow> ('w, unit) action" where
  "insert_value c self v =
     then_do (get_cursor c self)
       (\<lambda>_. then_do (execute c (INSERT_VALUE (take VALUE_LENGTH v))) (\<lambda>_. execute c COMMIT))"

subsection \<open>A reference server\<close>

text \<open>
  One instance of the client, to run the program against: a MySQL server that answers on
  one host name, knows a list of accounts, and interprets the statements the program issues.
  Its schema is in one of three states: the database \<^verbatim>\<open>ScalrTest\<close> is absent, it exists
  without the table, or it exists with the table \<^verbatim>\<open>ScalrValues\<close> and its rows. The
  connection remembers whether a database is selected and keeps the last result set.
  Statements take effect at once, so \<^verbatim>\<open>COMMIT\<close> succeeds and changes nothing. The status
  codes are MySQL's: 2005 unknown host, 1045 access denied, 1049 unknown database, 1046 no
  database selected (all raised by the client as \<^verbatim>\<open>OperationalError\<close>), 1146 no such table
  and 1064 syntax error (raised as \<^verbatim>\<open>ProgrammingError\<close>).
\<close>

datatype schema = NoDatabase | EmptyDatabase | Provisioned "string list"

record server =
  srv_host :: string
  srv_accounts :: "(string \<times> string) list"
  srv_schema :: schema
  selected :: bool
  result_rows :: "row list"

definition mysql_connect :: "string \<Rightarrow> string \<Rightarrow> string \<Rightarrow> server \<Rightarrow> db_exn option \<times> server" where
  "mysql_connect host user passwd w =
     (if host \<noteq> srv_host w then (Some (OperationalError 2005 ''Unknown MySQL server host''), w)
      else if (user, passwd) \<notin> set (srv_accounts w)
        then (Some (OperationalError 1045 ''Access denied''), w)
      else (None, w\<lparr>selected := False, result_rows := []\<rparr>))"

definition no_database_selected :: db_exn where
  "no_database_selected = OperationalError 1046 ''No database selected''"

definition unknown_database :: db_exn where
  "unknown_database = OperationalError 1049 ''Unknown database''"

definition no_such_table :: db_exn where
  "no_such_table = OtherDBError ''ProgrammingError 1146''"

definition mysql_execute :: "statement \<Rightarrow> server \<Rightarrow> db_exn option \<times> server" where
  "mysql_execute stmt w =
     (if stmt = CREATE_DATABASE then
        (None, w\<lparr>srv_schema := (case srv_schema w of NoDatabase \<Rightarrow> EmptyDatabase | sch \<Rightarrow> sch)\<rparr>)
      else if stmt = USE_DATABASE then
        (case srv_schema w of
           NoDatabase \<Rightarrow> (Some unknown_database, w)
         | _ \<Rightarrow> (None, w\<lparr>selected := True\<rparr>))
      else if stmt = COMMIT then (None, w)
      else if \<not> selected w then (Some no_database_selected, w)
      else if stmt = CREATE_TABLE then
        (case srv_schema w of
           NoDatabase \<Rightarrow> (Some unknown_database, w)
         | EmptyDatabase \<Rightarrow> (None, w\<lparr>srv_schema := Provisioned []\<rparr>)
         | Provisioned vs \<Rightarrow> (None, w))
      else if stmt = SELECT_VALUES then
        (case srv_schema w of
           Provisioned vs \<Rightarrow> (None, w\<lparr>result_rows := map (\<lambda>v. [v]) vs\<rparr>)
         | _ \<Rightarrow> (Some no_such_table, w))
      else
        (case stmt of
           (q, StrArg v) \<Rightarrow>
             (if q = fst (INSERT_VALUE v) then
                (case srv_schema w of
                   Provisioned vs \<Rightarrow> (None, w\<lparr>srv_schema := Provisioned (vs @ [v])\<rparr>)
                 | _ \<Rightarrow> (Some no_such_table, w))
              else (Some (OtherDBError ''ProgrammingError 1064''), w))
         | _ \<Rightarrow> (Some (OtherDBError ''ProgrammingError 1064''), w)))"

definition mysql :: "server client" where
  "mysql = \<lparr>cl_connect = mysql_connect, cl_execute = mysql_execute, cl_fetchall = result_rows\<rparr>"

subsection \<open>Running a list of statements\<close>

text \<open>
  The statements a connection runs, one after the other until the first exception; the
  statements of \<^verbatim>\<open>get_cursor\<close> for either role.
\<close>

fun run_statements :: "'w client \<Rightarrow> statement list \<Rightarrow> ('w, unit) action" where
  "run_statements c [] s = (Inr (), s)"
| "run_statements c (stmt # stmts) s = then_do (execute c stmt) (\<lambda>_. run_statements c stmts) s"

text \<open>The record of a list of statements that all returned.\<close>

definition clean_run :: "statement list \<Rightarrow> (statement \<times> db_exn option) list" where
  "clean_run stmts = map (\<lambda>stmt. (stmt, None)) stmts"

definition setup_statements :: "descriptor \<Rightarrow> statement list" where
  "setup_statements self =
     (if master self then [CREATE_DATABASE, USE_DATABASE, CREATE_TABLE] else [USE_DATABASE])"

subsection \<open>Concrete inputs\<close>

text \<open>
  A configuration directory with all four files (the contents end in a newline, as files
  do), one whose two host files name the same host, and one without the replica's file.
\<close>

definition example_fs :: filesystem where
  "example_fs =
     [''/var/config/mysql-username'' \<mapsto> ''root\<newline>'',
      ''/var/config/mysql-password'' \<mapsto> ''pw\<newline>'',
      ''/var/config/mysql-master'' \<mapsto> ''a\<newline>'',
      ''/var/config/mysql-slave'' \<mapsto> ''b\<newline>'']"

definition same_host_fs :: filesystem where
  "same_host_fs = example_fs(''/var/config/mysql-slave'' \<mapsto> ''a\<newline>'')"

text \<open>The resolver object that \<open>same_host_fs\<close> gives.\<close>

definition same_host_info :: conninfo where
  "same_host_info =
     [''username'' \<mapsto> ''root'', ''password'' \<mapsto> ''pw'', ''_master'' \<mapsto> ''a'',
      ''_slave'' \<mapsto> ''a'']"

definition partial_fs :: filesystem where
  "partial_fs = example_fs(''/var/config/mysql-slave'' := None)"

text \<open>
  A resolver that knows the hosts \<open>a\<close> and \<open>b\<close>, raises \<^verbatim>\<open>herror\<close> on the empty host name
  and \<^verbatim>\<open>gaierror\<close> on every other name.
\<close>

definition example_resolver :: resolver where
  "example_resolver name =
     (if name = ''a'' then Inr (''a'', [], [''10.0.0.1''])
      else if name = ''b'' then Inr (''b'', [], [''10.0.0.2'', ''10.0.0.10''])
      else if name = [] then Inl (HError 1 ''Unknown host'')
      else Inl (GaiError (- 2) ''Name or service not known''))"

text \<open>A server on host \<open>a\<close> whose database was never created, and one holding two values.\<close>

definition fresh_server :: server where
  "fresh_server =
     \<lparr>srv_host = ''a'', srv_accounts = [(''root'', ''pw'')], srv_schema = NoDatabase,
      selected = False, result_rows = []\<rparr>"

definition filled_server :: server where
  "filled_server = fresh_server\<lparr>srv_schema := Provisioned [''x'', ''y'']\<rparr>"

definition primary_a :: descriptor where
  "primary_a = \<lparr>hostname = ''a'', username = ''root'', password = ''pw'', master = True\<rparr>"

definition replica_a :: descriptor where
  "replica_a = \<lparr>hostname = ''a'', username = ''root'', password = ''pw'', master = False\<rparr>"


definition start :: "'w \<Rightarrow> 'w session" where
  "start w = \<lparr>world = w, issued = []\<rparr>"

section \<open>Properties\<close>

subsection \<open>The record of a run\<close>

text \<open>
  A list of statements either runs to its end, every statement recorded as returned, or
  stops at the first statement that raises; the exception raised is then the result.
\<close>

lemma run_statements_append:
  "run_statements c (xs @ ys) s = then_do (run_statements c xs) (\<lambda>_. run_statements c ys) s"
  by (induction xs arbitrary: s) (auto simp: then_do_def split: prod.splits sum.splits)

lemma run_statements_log:
  "run_statements c stmts s = (r, s') \<Longrightarrow>
     (r = Inr () \<and> issued s' = issued s @ clean_run stmts) \<or>
     (\<exists>n e. n < length stmts \<and> r = Inl (DBError e) \<and>
        issued s' = issued s @ clean_run (take n stmts) @ [(stmts ! n, Some e)])"
proof (induction stmts arbitrary: s)
  case Nil
  then show ?case by (simp add: clean_run_def)
next
  case (Cons stmt stmts)
  show ?case
  proof (cases "cl_execute c stmt (world s)")
    case (Pair o' w')
    show ?thesis
    proof (cases o')
      case None
      let ?s1 = "\<lparr>world = w', issued = issued s @ [(stmt, None)]\<rparr>"
      from Cons.prems Pair None have "run_statements c stmts ?s1 = (r, s')"
        by (simp add: then_do_def execute_def)
      from Cons.IH[OF this] show ?thesis
      proof
        assume "r = Inr () \<and> issued s' = issued ?s1 @ clean_run stmts"
        then show ?thesis by (simp add: clean_run_def)
      next
        assume "\<exists>n e. n < length stmts \<and> r = Inl (DBError e) \<and>
          issued s' = issued ?s1 @ clean_run (take n stmts) @ [(stmts ! n, Some e)]"
        then obtain n e where n: "n < length stmts" "r = Inl (DBError e)"
          "issued s' = issued ?s1 @ clean_run (take n stmts) @ [(stmts ! n, Some e)]" by blast
        then have "Suc n < length (stmt # stmts) \<and> r = Inl (DBError e) \<and>
          issued s' = issued s @ clean_run (take (Suc n) (stmt # stmts)) @ [((stmt # stmts) ! Suc n, Some e)]"
          by (simp add: clean_run_def)
        then show ?thesis by blast
      qed
    next
      case (Some e)
      from Cons.prems Pair Some have "r = Inl (DBError e)" "issued s' = issued s @ [(stmt, Some e)]"
        by (auto simp: then_do_def execute_def)
      then have "0 < length (stmt # stmts) \<and> r = Inl (DBError e) \<and>
          issued s' = issued s @ clean_run (take 0 (stmt # stmts)) @ [((stmt # stmts) ! 0, Some e)]"
        by (simp add: clean_run_def)
      then show ?thesis by blast
    qed
  qed
qed

lemma get_cursor_connected:
  "cl_connect c (hostname d) (username d) (password d) (world s) = (None, w') \<Longrightarrow>
   get_cursor c d s = run_statements c (setup_statements d) (s\<lparr>world := w'\<rparr>)"
  by (simp add: get_cursor_def setup_statements_def then_do_def split: prod.splits sum.splits)

lemma get_cursor_refused:
  "cl_connect c (hostname d) (username d) (password d) (world s) = (Some e, w') \<Longrightarrow>
   snd (get_cursor c d s) = s\<lparr>world := w'\<rparr> \<and>
   (\<forall>e'. fst (get_cursor c d s) \<noteq> Inl (DBError (OperationalError code m)))
   \<and> fst (get_cursor c d s) \<noteq> Inr ()"
  by (cases e) (auto simp: get_cursor_def)

subsection \<open>Reading the rows\<close>

lemma try_body:
  "cl_connect c (hostname d) (username d) (password d) (world s) = (None, w') \<Longrightarrow>
   then_do (get_cursor c d) (\<lambda>_. execute c SELECT_VALUES) s =
   run_statements c (setup_statements d @ [SELECT_VALUES]) (s\<lparr>world := w'\<rparr>)"
  by (simp add: get_cursor_connected run_statements_append then_do_def split: prod.splits sum.splits)

lemma log_failure:
  assumes "run_statements c stmts s = (r, s')" "issued s' = issued s @ log" "(stmt, Some e) \<in> set log"
  shows "r = Inl (DBError e)"
  using run_statements_log[OF assms(1)] assms(2,3) by (auto simp: clean_run_def)

lemma log_clean:
  assumes "run_statements c stmts s = (r, s')" "issued s' = issued s @ log" "\<forall>x\<in>set log. snd x = None"
  shows "r = Inr () \<and> log = clean_run stmts"
  using run_statements_log[OF assms(1)] assms(2,3) by (auto simp: clean_run_def)

lemma get_values_session:
  "snd (get_values c d s) = snd (then_do (get_cursor c d) (\<lambda>_. execute c SELECT_VALUES) s)"
  by (simp add: get_values_def split: prod.splits sum.splits error.splits db_exn.splits)

lemma get_cursor_refused_log:
  "cl_connect c (hostname d) (username d) (password d) (world s) = (Some e, w') \<Longrightarrow>
   issued (snd (then_do (get_cursor c d) f s)) = issued s"
  by (cases e) (auto simp: get_cursor_def then_do_def)

lemma get_values_raised:
  assumes "get_values c d s = (r, s')" and "issued s' = issued s @ log"
    and "(stmt, Some e) \<in> set log"
  shows "then_do (get_cursor c d) (\<lambda>_. execute c SELECT_VALUES) s = (Inl (DBError e), s')"
proof (cases "cl_connect c (hostname d) (username d) (password d) (world s)")
  case (Pair o' w')
  let ?t = "then_do (get_cursor c d) (\<lambda>_. execute c SELECT_VALUES) s"
  from get_values_session[of c d s] assms(1) have s': "snd ?t = s'" by simp
  show ?thesis
  proof (cases o')
    case None
    let ?b = "run_statements c (setup_statements d @ [SELECT_VALUES]) (s\<lparr>world := w'\<rparr>)"
    from Pair None have tb: "?t = ?b"
      by (simp add: try_body)
    obtain r0 where b: "?b = (r0, s')" using s' tb by (cases ?b) simp
    from assms(2) have "issued s' = issued (s\<lparr>world := w'\<rparr>) @ log" by simp
    from log_failure[OF b this assms(3)] tb b show ?thesis by simp
  next
    case (Some e0)
    from Pair Some have "cl_connect c (hostname d) (username d) (password d) (world s) = (Some e0, w')"
      by simp
    then have "issued (snd ?t) = issued s" by (rule get_cursor_refused_log)
    with s' assms(2) have "log = []" by simp
    with assms(3) show ?thesis by simp
  qed
qed

lemma get_values_clean:
  assumes "get_values c d s = (r, s')" and "issued s' = issued s @ log"
    and "fst (cl_connect c (hostname d) (username d) (password d) (world s)) = None"
    and "\<forall>x\<in>set log. snd x = None"
  shows "r = first_columns (cl_fetchall c (world s')) \<and> log = clean_run (setup_statements d @ [SELECT_VALUES])"
proof -
  let ?t = "then_do (get_cursor c d) (\<lambda>_. execute c SELECT_VALUES) s"
  from get_values_session[of c d s] assms(1) have s': "snd ?t = s'" by simp
  obtain w' where cn: "cl_connect c (hostname d) (username d) (password d) (world s) = (None, w')"
    using assms(3) by (cases "cl_connect c (hostname d) (username d) (password d) (world s)") simp
  let ?b = "run_statements c (setup_statements d @ [SELECT_VALUES]) (s\<lparr>world := w'\<rparr>)"
  from cn have tb: "?t = ?b" by (simp add: try_body)
  obtain r0 where b: "?b = (r0, s')" using s' tb by (cases ?b) simp
  from assms(2) have "issued s' = issued (s\<lparr>world := w'\<rparr>) @ log" by simp
  from log_clean[OF b this assms(4)] tb b assms(1) show ?thesis by (simp add: get_values_def)
qed

lemma first_columns_nonempty:
  "\<forall>row\<in>set rows. row \<noteq> [] \<Longrightarrow> first_columns rows = Inr (map hd rows)"
proof (induction rows)
  case Nil
  then show ?case by simp
next
  case (Cons row rows)
  then show ?case by (cases row) auto
qed

subsection \<open>Rendered numbers, diagnostics and statements\<close>

text \<open>
  The decimal rendering can be read back, so two different integers never render alike;
  the three diagnostics differ from each other whatever the descriptor and the code; the
  statements of the program are pairwise different.
\<close>

lemma digit_value_digit_char: "d < 10 \<Longrightarrow> digit_value (digit_char d) = d"
  by (simp add: digit_value_def digit_char_def)

lemma digit_char_not_minus: "d < 10 \<Longrightarrow> digit_char d \<noteq> CHR ''-''"
proof
  assume d: "d < 10" and "digit_char d = CHR ''-''"
  then have "of_char (digit_char d) = (of_char (CHR ''-'') :: nat)" by simp
  with d show False by (simp add: digit_char_def)
qed

lemma parse_str_nat: "foldl (\<lambda>a ch. 10 * a + digit_value ch) 0 (str_nat n) = n"
proof (induction n rule: str_nat.induct)
  case (1 n)
  show ?case
  proof (cases "n < 10")
    case True
    then have "str_nat n = [digit_char n]" by (subst str_nat.simps) simp
    with True show ?thesis by (simp add: digit_value_digit_char)
  next
    case False
    then have unfold: "str_nat n = str_nat (n div 10) @ [digit_char (n mod 10)]"
      by (subst str_nat.simps) simp
    from False 1 have ih: "foldl (\<lambda>a ch. 10 * a + digit_value ch) 0 (str_nat (n div 10)) = n div 10"
      by blast
    have "n mod 10 < 10" by simp
    then have dv: "digit_value (digit_char (n mod 10)) = n mod 10" by (rule digit_value_digit_char)
    have "foldl (\<lambda>a ch. 10 * a + digit_value ch) 0 (str_nat n) = 10 * (n div 10) + n mod 10"
      unfolding unfold foldl_append using ih dv by simp
    then show ?thesis by simp
  qed
qed

lemma str_nat_inj: "str_nat m = str_nat n \<Longrightarrow> m = n"
proof -
  assume eq: "str_nat m = str_nat n"
  have "m = foldl (\<lambda>a ch. 10 * a + digit_value ch) 0 (str_nat m)"
    by (rule parse_str_nat[symmetric])
  also have "\<dots> = foldl (\<lambda>a ch. 10 * a + digit_value ch) 0 (str_nat n)"
    by (rule arg_cong[OF eq])
  also have "\<dots> = n" by (rule parse_str_nat)
  finally show ?thesis .
qed

lemma str_nat_hd: "\<exists>d rest. d < 10 \<and> str_nat n = digit_char d # rest"
proof (induction n rule: str_nat.induct)
  case (1 n)
  show ?case
  proof (cases "n < 10")
    case True
    then show ?thesis by (auto simp add: str_nat.simps[of n])
  next
    case False
    with 1 obtain d rest where "d < 10" "str_nat (n div 10) = digit_char d # rest" by blast
    with False have "d < 10 \<and> str_nat n = digit_char d # (rest @ [digit_char (n mod 10)])"
      by (simp add: str_nat.simps[of n])
    then show ?thesis by blast
  qed
qed

lemma str_int_inj: "str_int i = str_int j \<Longrightarrow> i = j"
proof -
  assume eq: "str_int i = str_int j"
  have no_minus: "\<And>n rest. str_nat n \<noteq> CHR ''-'' # rest"
    using str_nat_hd digit_char_not_minus by (metis list.inject)
  show ?thesis
  proof (cases "i < 0"; cases "j < 0")
    assume "i < 0" "j < 0"
    with eq have "nat (- i) = nat (- j)" by (auto simp: str_int_def dest: str_nat_inj)
    with \<open>i < 0\<close> \<open>j < 0\<close> show ?thesis by simp
  next
    assume "i < 0" "\<not> j < 0"
    with eq no_minus[of "nat j" "str_nat (nat (- i))"] show ?thesis by (auto simp: str_int_def)
  next
    assume "\<not> i < 0" "j < 0"
    with eq no_minus[of "nat i" "str_nat (nat (- j))"] show ?thesis by (auto simp: str_int_def)
  next
    assume "\<not> i < 0" "\<not> j < 0"
    with eq have "nat i = nat j" by (auto simp: str_int_def dest: str_nat_inj)
    with \<open>\<not> i < 0\<close> \<open>\<not> j < 0\<close> show ?thesis by simp
  qed
qed

lemma messages_distinct:
  "no_host_message d \<noteq> access_denied_message d'"
  "no_host_message d \<noteq> other_code_message code"
  "access_denied_message d \<noteq> other_code_message code"
  by (simp_all add: no_host_message_def access_denied_message_def other_code_message_def)

lemma other_code_message_inj: "other_code_message a = other_code_message b \<Longrightarrow> a = b"
  by (simp add: other_code_message_def str_int_inj)

lemma INSERT_VALUE_inj: "INSERT_VALUE x = INSERT_VALUE y \<Longrightarrow> x = y"
  by (simp add: INSERT_VALUE_def)

lemma statement_neq:
  "CREATE_DATABASE \<noteq> USE_DATABASE" "CREATE_DATABASE \<noteq> CREATE_TABLE" "CREATE_DATABASE \<noteq> SELECT_VALUES"
  "CREATE_DATABASE \<noteq> COMMIT" "CREATE_DATABASE \<noteq> INSERT_VALUE x"
  "USE_DATABASE \<noteq> CREATE_DATABASE" "USE_DATABASE \<noteq> CREATE_TABLE" "USE_DATABASE \<noteq> SELECT_VALUES"
  "USE_DATABASE \<noteq> COMMIT" "USE_DATABASE \<noteq> INSERT_VALUE x"
  "CREATE_TABLE \<noteq> CREATE_DATABASE" "CREATE_TABLE \<noteq> USE_DATABASE" "CREATE_TABLE \<noteq> SELECT_VALUES"
  "CREATE_TABLE \<noteq> COMMIT" "CREATE_TABLE \<noteq> INSERT_VALUE x"
  "SELECT_VALUES \<noteq> CREATE_DATABASE" "SELECT_VALUES \<noteq> USE_DATABASE" "SELECT_VALUES \<noteq> CREATE_TABLE"
  "SELECT_VALUES \<noteq> COMMIT" "SELECT_VALUES \<noteq> INSERT_VALUE x"
  "COMMIT \<noteq> CREATE_DATABASE" "COMMIT \<noteq> USE_DATABASE" "COMMIT \<noteq> CREATE_TABLE"
  "COMMIT \<noteq> SELECT_VALUES" "COMMIT \<noteq> INSERT_VALUE x"
  "INSERT_VALUE x \<noteq> CREATE_DATABASE" "INSERT_VALUE x \<noteq> USE_DATABASE" "INSERT_VALUE x \<noteq> CREATE_TABLE"
  "INSERT_VALUE x \<noteq> SELECT_VALUES" "INSERT_VALUE x \<noteq> COMMIT"
  by (simp_all add: CREATE_DATABASE_def USE_DATABASE_def CREATE_TABLE_def SELECT_VALUES_def
      COMMIT_def INSERT_VALUE_def)

lemma INSERT_VALUE_not_COMMIT: "INSERT_VALUE x \<noteq> COMMIT"
  by (rule statement_neq)

lemma mysql_execute_simps:
  "mysql_execute CREATE_DATABASE w =
     (None, w\<lparr>srv_schema := (case srv_schema w of NoDatabase \<Rightarrow> EmptyDatabase | sch \<Rightarrow> sch)\<rparr>)"
  "mysql_execute USE_DATABASE w =
     (case srv_schema w of NoDatabase \<Rightarrow> (Some unknown_database, w) | _ \<Rightarrow> (None, w\<lparr>selected := True\<rparr>))"
  "mysql_execute CREATE_TABLE w =
     (if \<not> selected w then (Some no_database_selected, w)
      else case srv_schema w of
           NoDatabase \<Rightarrow> (Some unknown_database, w)
         | EmptyDatabase \<Rightarrow> (None, w\<lparr>srv_schema := Provisioned []\<rparr>)
         | Provisioned vs \<Rightarrow> (None, w))"
  "mysql_execute SELECT_VALUES w =
     (if \<not> selected w then (Some no_database_selected, w)
      else case srv_schema w of
           Provisioned vs \<Rightarrow> (None, w\<lparr>result_rows := map (\<lambda>v. [v]) vs\<rparr>)
         | _ \<Rightarrow> (Some no_such_table, w))"
  "mysql_execute COMMIT w = (None, w)"
  "mysql_execute (INSERT_VALUE v) w =
     (if \<not> selected w then (Some no_database_selected, w)
      else case srv_schema w of
           Provisioned vs \<Rightarrow> (None, w\<lparr>srv_schema := Provisioned (vs @ [v])\<rparr>)
         | _ \<Rightarrow> (Some no_such_table, w))"
  by (simp_all add: mysql_execute_def statement_neq) (simp add: INSERT_VALUE_def)

subsection \<open>Which statements a run records\<close>

lemma run_statements_member:
  assumes "run_statements c stmts s = (r, s')" and "issued s' = issued s @ log"
  shows "fst ` set log \<subseteq> set stmts"
proof -
  from run_statements_log[OF assms(1)] assms(2)
  consider "log = clean_run stmts"
    | n e where "n < length stmts" "log = clean_run (take n stmts) @ [(stmts ! n, Some e)]"
    by auto
  then show ?thesis
  proof cases
    case 1
    then show ?thesis by (auto simp: clean_run_def)
  next
    case 2
    then show ?thesis by (auto simp: clean_run_def dest: in_set_takeD)
  qed
qed

lemma run_statements_last_two:
  assumes "run_statements c (pre @ [a, b]) s = (r, s')" and "issued s' = issued s @ log"
    and "(a, None) \<in> set log" and "a \<notin> set pre" and "a \<noteq> b"
  shows "\<exists>out. log = clean_run pre @ [(a, None), (b, out)]"
proof -
  let ?stmts = "pre @ [a, b]"
  from run_statements_log[OF assms(1)] assms(2)
  consider "log = clean_run ?stmts"
    | n e where "n < length ?stmts" "log = clean_run (take n ?stmts) @ [(?stmts ! n, Some e)]"
    by auto
  then show ?thesis
  proof cases
    case 1
    then show ?thesis by (simp add: clean_run_def)
  next
    case 2
    from 2(2) assms(3) have mem: "a \<in> set (take n ?stmts)" by (auto simp: clean_run_def)
    have "\<not> n \<le> length pre"
    proof
      assume "n \<le> length pre"
      then have "take n ?stmts = take n pre" by simp
      with mem assms(4) show False by (auto dest: in_set_takeD)
    qed
    with 2(1) have n: "n = Suc (length pre)" by simp
    then have tk: "take n ?stmts = pre @ [a]" and nth: "?stmts ! n = b"
      by (simp_all add: nth_append)
    have "log = clean_run (pre @ [a]) @ [(b, Some e)]"
      unfolding 2(2) tk nth ..
    then show ?thesis by (simp add: clean_run_def)
  qed
qed

lemma insert_value_connected:
  "cl_connect c (hostname d) (username d) (password d) (world s) = (None, w') \<Longrightarrow>
   insert_value c d v s =
   run_statements c (setup_statements d @ [INSERT_VALUE (take VALUE_LENGTH v), COMMIT]) (s\<lparr>world := w'\<rparr>)"
  by (simp add: insert_value_def get_cursor_connected run_statements_append then_do_def
      split: prod.splits sum.splits)

lemma insert_value_refused:
  "cl_connect c (hostname d) (username d) (password d) (world s) = (Some e, w') \<Longrightarrow>
   issued (snd (insert_value c d v s)) = issued s \<and> fst (insert_value c d v s) \<noteq> Inr ()"
  by (cases e) (auto simp: insert_value_def get_cursor_def then_do_def)

lemma setup_statements_no_insert: "INSERT_VALUE x \<notin> set (setup_statements d)"
  by (simp add: setup_statements_def statement_neq)

subsection \<open>The statements of a connection, and the reference server\<close>

lemma get_cursor_member:
  assumes "get_cursor c d s = (r, s')" and "issued s' = issued s @ log"
  shows "fst ` set log \<subseteq> set (setup_statements d) \<and> (r = Inr () \<longrightarrow> log = clean_run (setup_statements d))"
proof (cases "cl_connect c (hostname d) (username d) (password d) (world s)")
  case (Pair o' w')
  show ?thesis
  proof (cases o')
    case None
    from Pair None assms(1) have run: "run_statements c (setup_statements d) (s\<lparr>world := w'\<rparr>) = (r, s')"
      by (simp add: get_cursor_connected)
    from assms(2) have log: "issued s' = issued (s\<lparr>world := w'\<rparr>) @ log" by simp
    from run_statements_member[OF run log] run_statements_log[OF run] log show ?thesis by auto
  next
    case (Some e)
    from get_cursor_refused[of c d s e w'] Pair Some assms have "log = []" "r \<noteq> Inr ()" by auto
    then show ?thesis by simp
  qed
qed

lemma mysql_get_cursor_primary:
  assumes "hostname d = srv_host (world t)" and "(username d, password d) \<in> set (srv_accounts (world t))"
    and "master d"
  shows "get_cursor mysql d t =
     (Inr (), \<lparr>world = (world t)\<lparr>srv_schema := (case srv_schema (world t) of
                                      Provisioned vs \<Rightarrow> Provisioned vs | _ \<Rightarrow> Provisioned []),
                                 selected := True, result_rows := []\<rparr>,
                issued = issued t @ clean_run [CREATE_DATABASE, USE_DATABASE, CREATE_TABLE]\<rparr>)"
  using assms
  by (cases "srv_schema (world t)")
     (simp_all add: get_cursor_def then_do_def execute_def mysql_def mysql_connect_def
          mysql_execute_simps clean_run_def)

lemma mysql_get_cursor_replica:
  assumes "hostname d = srv_host (world t)" and "(username d, password d) \<in> set (srv_accounts (world t))"
    and "\<not> master d" and "srv_schema (world t) \<noteq> NoDatabase"
  shows "get_cursor mysql d t =
     (Inr (), \<lparr>world = (world t)\<lparr>selected := True, result_rows := []\<rparr>,
                issued = issued t @ clean_run [USE_DATABASE]\<rparr>)"
  using assms
  by (cases "srv_schema (world t)")
     (simp_all add: get_cursor_def then_do_def execute_def mysql_def mysql_connect_def
          mysql_execute_simps clean_run_def)

lemma mysql_get_cursor_Inr:
  assumes "get_cursor mysql d t = (Inr (), t1)"
  shows "hostname d = srv_host (world t) \<and> (username d, password d) \<in> set (srv_accounts (world t))
     \<and> (\<not> master d \<longrightarrow> srv_schema (world t) \<noteq> NoDatabase)"
proof (intro conjI impI)
  from assms show "hostname d = srv_host (world t)"
    by (simp add: get_cursor_def mysql_def mysql_connect_def MYSQL_ERROR_CODE_NO_HOST_def split: if_splits)
  from assms show "(username d, password d) \<in> set (srv_accounts (world t))"
    by (simp add: get_cursor_def mysql_def mysql_connect_def MYSQL_ERROR_CODE_NO_HOST_def
        MYSQL_ERROR_CODE_ACCESS_DENIED_def split: if_splits)
  assume "\<not> master d"
  with assms show "srv_schema (world t) \<noteq> NoDatabase"
    by (auto simp add: get_cursor_def mysql_def mysql_connect_def execute_def mysql_execute_simps
        split: if_splits)
qed


lemma mysql_get_cursor_twice:
  assumes "get_cursor mysql d t = (Inr (), t1)"
  shows "\<exists>t2. get_cursor mysql d t1 = (Inr (), t2) \<and> world t2 = world t1"
proof -
  from mysql_get_cursor_Inr[OF assms]
  have host: "hostname d = srv_host (world t)"
    and acct: "(username d, password d) \<in> set (srv_accounts (world t))"
    and sch: "\<not> master d \<longrightarrow> srv_schema (world t) \<noteq> NoDatabase" by simp_all
  show ?thesis
  proof (cases "master d")
    case True
    from mysql_get_cursor_primary[OF host acct True] assms
    have w1: "world t1 = (world t)\<lparr>srv_schema := (case srv_schema (world t) of
                                      Provisioned vs \<Rightarrow> Provisioned vs | _ \<Rightarrow> Provisioned []),
                                 selected := True, result_rows := []\<rparr>"
      by auto
    then have host1: "hostname d = srv_host (world t1)"
      and acct1: "(username d, password d) \<in> set (srv_accounts (world t1))"
      using host acct by simp_all
    have "(world t1)\<lparr>srv_schema := (case srv_schema (world t1) of
                                      Provisioned vs \<Rightarrow> Provisioned vs | _ \<Rightarrow> Provisioned []),
                                 selected := True, result_rows := []\<rparr> = world t1"
      unfolding w1 by (cases "srv_schema (world t)") simp_all
    with mysql_get_cursor_primary[OF host1 acct1 True] show ?thesis by simp
  next
    case False
    with sch have sch0: "srv_schema (world t) \<noteq> NoDatabase" by simp
    from mysql_get_cursor_replica[OF host acct False sch0] assms
    have w1: "world t1 = (world t)\<lparr>selected := True, result_rows := []\<rparr>" by auto
    then have host1: "hostname d = srv_host (world t1)"
      and acct1: "(username d, password d) \<in> set (srv_accounts (world t1))"
      and sch1: "srv_schema (world t1) \<noteq> NoDatabase"
      using host acct sch0 by simp_all
    have "(world t1)\<lparr>selected := True, result_rows := []\<rparr> = world t1"
      unfolding w1 by simp
    with mysql_get_cursor_replica[OF host1 acct1 False sch1] show ?thesis by simp
  qed
qed

subsection \<open>What a read and a write do\<close>

text \<open>
  A read and a write are the connection followed by the run of a fixed list of statements;
  on the reference server a read gives back the stored values and a write on a primary
  appends the truncated value.
\<close>

lemma first_columns_singletons: "first_columns (map (\<lambda>v. [v]) vs) = Inr vs"
  by (induction vs) simp_all

lemma mysql_get_cursor_no_database:
  assumes "hostname d = srv_host (world t)" and "(username d, password d) \<in> set (srv_accounts (world t))"
    and "\<not> master d" and "srv_schema (world t) = NoDatabase"
  shows "get_cursor mysql d t =
     (Inl (DBError (OperationalError 1049 ''Unknown database'')),
      \<lparr>world = (world t)\<lparr>selected := False, result_rows := []\<rparr>,
       issued = issued t @ [(USE_DATABASE, Some (OperationalError 1049 ''Unknown database''))]\<rparr>)"
  using assms
  by (simp add: get_cursor_def execute_def mysql_def mysql_connect_def mysql_execute_simps
      unknown_database_def)

lemma mysql_get_values_provisioned:
  assumes host: "hostname d = srv_host (world t)"
    and acct: "(username d, password d) \<in> set (srv_accounts (world t))"
    and sch: "srv_schema (world t) = Provisioned vs"
  shows "fst (get_values mysql d t) = Inr vs"
proof (cases "master d")
  case True
  from mysql_get_cursor_primary[OF host acct True] sch show ?thesis
    by (simp add: get_values_def then_do_def execute_def mysql_def mysql_execute_simps
        first_columns_singletons)
next
  case False
  from sch have "srv_schema (world t) \<noteq> NoDatabase" by simp
  from mysql_get_cursor_replica[OF host acct False this] sch show ?thesis
    by (simp add: get_values_def then_do_def execute_def mysql_def mysql_execute_simps
        first_columns_singletons)
qed

lemma mysql_get_values_no_database:
  assumes host: "hostname d = srv_host (world t)"
    and acct: "(username d, password d) \<in> set (srv_accounts (world t))"
    and sch: "srv_schema (world t) = NoDatabase"
  shows "fst (get_values mysql d t) = Inr []"
proof (cases "master d")
  case True
  from mysql_get_cursor_primary[OF host acct True] sch show ?thesis
    by (simp add: get_values_def then_do_def execute_def mysql_def mysql_execute_simps)
next
  case False
  from mysql_get_cursor_no_database[OF host acct False sch] show ?thesis
    by (simp add: get_values_def then_do_def MYSQL_ERROR_CODE_UNKNOWN_DB_def)
qed

lemma get_values_run:
  assumes "cl_connect c (hostname d) (username d) (password d) (world s) = (None, w')"
    and "run_statements c (setup_statements d @ [SELECT_VALUES]) (s\<lparr>world := w'\<rparr>) = (r1, s1)"
  shows "get_values c d s =
     (case r1 of
        Inl (DBError (OperationalError code msg)) \<Rightarrow>
          (if code = MYSQL_ERROR_CODE_UNKNOWN_DB then (Inr [], s1)
           else (Inl (DBError (OperationalError code msg)), s1))
      | Inl e \<Rightarrow> (Inl e, s1)
      | Inr _ \<Rightarrow> (first_columns (cl_fetchall c (world s1)), s1))"
  using try_body[OF assms(1)] assms(2)
  by (simp add: get_values_def split: sum.splits error.splits db_exn.splits)

lemma insert_value_after_cursor:
  "get_cursor c d s = (Inr (), s1) \<Longrightarrow>
   insert_value c d v s = run_statements c [INSERT_VALUE (take VALUE_LENGTH v), COMMIT] s1"
  by (simp add: insert_value_def then_do_def split: prod.splits sum.splits)

lemma execute_issued:
  "execute c stmt s1 = (r, s') \<Longrightarrow> \<exists>out. issued s' = issued s1 @ [(stmt, out)]"
  by (auto simp: execute_def split: prod.splits option.splits)

lemma run_statements_extends:
  "run_statements c stmts s1 = (r, s') \<Longrightarrow> \<exists>rest. issued s' = issued s1 @ rest"
  using run_statements_log[of c stmts s1 r s'] by auto

lemma run_two_first:
  assumes "run_statements c [a, b] s1 = (r, s')"
  shows "\<exists>out rest. issued s' = issued s1 @ (a, out) # rest"
proof (cases "execute c a s1")
  case (Pair ra sa)
  from execute_issued[OF Pair] obtain out where out: "issued sa = issued s1 @ [(a, out)]" by blast
  show ?thesis
  proof (cases ra)
    case (Inl e)
    with assms Pair have "s' = sa" by (simp add: then_do_def)
    with out show ?thesis by simp
  next
    case (Inr u)
    with assms Pair have "run_statements c [b] sa = (r, s')" by (simp add: then_do_def)
    from run_statements_extends[OF this] obtain rest where "issued s' = issued sa @ rest" by blast
    with out show ?thesis by simp
  qed
qed

lemma get_cursor_issued:
  "\<exists>pre. issued (snd (get_cursor c d s)) = issued s @ pre"
proof (cases "cl_connect c (hostname d) (username d) (password d) (world s)")
  case (Pair o' w')
  show ?thesis
  proof (cases o')
    case None
    obtain r s1 where g: "get_cursor c d s = (r, s1)" by (cases "get_cursor c d s")
    with Pair None have "run_statements c (setup_statements d) (s\<lparr>world := w'\<rparr>) = (r, s1)"
      by (simp add: get_cursor_connected)
    from run_statements_log[OF this] g show ?thesis by auto
  next
    case (Some e)
    with Pair get_cursor_refused[of c d s e w'] show ?thesis by simp
  qed
qed

lemma insert_issued:
  assumes "insert_value c d v s = (r, s')" and "issued s' = issued s @ log"
    and "get_cursor c d s = (Inr (), s1)"
  shows "\<exists>out. (INSERT_VALUE (take VALUE_LENGTH v), out) \<in> set log"
proof -
  from get_cursor_issued[of c d s] assms(3) obtain pre where pre: "issued s1 = issued s @ pre"
    by auto
  from insert_value_after_cursor[OF assms(3), of v] assms(1)
  have "run_statements c [INSERT_VALUE (take VALUE_LENGTH v), COMMIT] s1 = (r, s')" by simp
  from run_two_first[OF this] obtain out rest
    where "issued s' = issued s1 @ (INSERT_VALUE (take VALUE_LENGTH v), out) # rest" by blast
  with pre assms(2) have "log = pre @ (INSERT_VALUE (take VALUE_LENGTH v), out) # rest" by simp
  then show ?thesis by auto
qed

lemma mysql_insert_value:
  assumes host: "hostname d = srv_host (world t)"
    and acct: "(username d, password d) \<in> set (srv_accounts (world t))"
    and m: "master d"
  shows "fst (insert_value mysql d v t) = Inr ()
       \<and> srv_schema (world (snd (insert_value mysql d v t))) =
           Provisioned ((case srv_schema (world t) of Provisioned vs \<Rightarrow> vs | _ \<Rightarrow> [])
                         @ [take VALUE_LENGTH v])"
  using mysql_get_cursor_primary[OF host acct m]
  by (cases "srv_schema (world t)")
     (simp_all add: insert_value_def then_do_def execute_def mysql_def mysql_execute_simps)

text \<open>The definitions to unfold when the program runs against a concrete client.\<close>

lemmas client_defs = get_values_def get_cursor_def insert_value_def then_do_def execute_def start_def
  mysql_def mysql_connect_def mysql_execute_simps statement_neq
  fresh_server_def filled_server_def primary_a_def replica_a_def
  unknown_database_def no_database_selected_def no_such_table_def
  MYSQL_ERROR_CODE_UNKNOWN_DB_def MYSQL_ERROR_CODE_NO_HOST_def MYSQL_ERROR_CODE_ACCESS_DENIED_def
  VALUE_LENGTH_def

subsection \<open>The configuration resolver and the address list\<close>

lemma strip_examples: "strip ''root\<newline>'' = ''root''" "strip ''pw\<newline>'' = ''pw''"
  "strip ''a\<newline>'' = ''a''" "strip ''b\<newline>'' = ''b''"
  by (simp_all add: strip_def is_space_def)

lemma config_paths:
  "path_join CONFIG_PATH ''mysql-username'' = ''/var/config/mysql-username''"
  "path_join CONFIG_PATH ''mysql-password'' = ''/var/config/mysql-password''"
  "path_join CONFIG_PATH ''mysql-master'' = ''/var/config/mysql-master''"
  "path_join CONFIG_PATH ''mysql-slave'' = ''/var/config/mysql-slave''"
  by (simp_all add: path_join_def CONFIG_PATH_def)

lemma init_value:
  assumes "fs (path_join path ''mysql-username'') = Some u"
      and "fs (path_join path ''mysql-password'') = Some p"
      and "fs (path_join path ''mysql-master'') = Some m"
      and "fs (path_join path ''mysql-slave'') = Some sl"
    shows "ConnectionInfo_init fs path =
      Inr [''username'' \<mapsto> strip u, ''password'' \<mapsto> strip p, ''_master'' \<mapsto> strip m, ''_slave'' \<mapsto> strip sl]"
  using assms by (simp add: ConnectionInfo_init_def config_entries_def)

lemma load_entries_missing:
  "\<exists>fname\<in>fst ` set es. fs (path_join path fname) = None \<Longrightarrow>
   load_entries fs path es self = Inl NoConnectionInfo"
proof (induction es arbitrary: self)
  case Nil
  then show ?case by simp
next
  case (Cons entry es)
  then show ?case by (cases entry) (auto split: option.splits)
qed

lemma replicating_always_True: "replicating self h = (Inr b, h') \<Longrightarrow> b"
  by (auto simp: replicating_def ConnectionInfo_master_def ConnectionInfo_slave_def
      ConnectionInfo_property_def new_object_def split: sum.splits prod.splits)

lemma property_new:
  "connection_information self m = Inr d \<Longrightarrow>
   ConnectionInfo_property self m h = (Inr (length h), h @ [d]) \<and> deref (h @ [d]) (length h) = Some d"
  by (simp add: ConnectionInfo_property_def new_object_def deref_def)

lemma sort_permutation: "mset ys = mset xs \<Longrightarrow> sort ys = sort (xs :: string list)"
  by (rule properties_for_sort) simp_all

lemma example_order: "''10.0.0.10'' \<le> ''10.0.0.2''" "\<not> ''10.0.0.2'' \<le> ''10.0.0.10''"
  by (simp_all add: less_char_def)

lemma example_sort: "sort [''10.0.0.2'', ''10.0.0.10''] = [''10.0.0.10'', ''10.0.0.2'']"
  by (simp add: example_order)

section \<open>The claims\<close>

text \<open>
  C3. When \<^verbatim>\<open>connect\<close> raises an \<^verbatim>\<open>OperationalError\<close>, \<^verbatim>\<open>get_cursor\<close> raises
  \<^verbatim>\<open>NoConnectionEstablished\<close> for the same descriptor, and the status code alone selects
  the diagnostic: the host diagnostic for code 2005, tested first; the credentials
  diagnostic for code 1045, tested second; for every other code the diagnostic
  \<open>An error occured: Code\<close> followed by the decimal code. No statement is issued. The
  code can be read back from the third diagnostic (two different codes never give the same
  text), and the three diagnostics are pairwise different, so the text tells the reason.
\<close>

theorem connect_failure_classified:
  assumes "cl_connect c (hostname d) (username d) (password d) (world s)
             = (Some (OperationalError code m), w')"
  shows "get_cursor c d s =
           (Inl (NoConnectionEstablished d
              (if code = 2005 then no_host_message d
               else if code = 1045 then access_denied_message d
               else other_code_message code)), s\<lparr>world := w'\<rparr>)
         \<and> other_code_message code = ''An error occured: Code '' @ str_int code
         \<and> (\<forall>code'. other_code_message code' = other_code_message code \<longrightarrow> code' = code)
         \<and> no_host_message d \<noteq> access_denied_message d
         \<and> no_host_message d \<noteq> other_code_message code
         \<and> access_denied_message d \<noteq> other_code_message code"
proof -
  have "get_cursor c d s =
           (Inl (NoConnectionEstablished d
              (if code = 2005 then no_host_message d
               else if code = 1045 then access_denied_message d
               else other_code_message code)), s\<lparr>world := w'\<rparr>)"
    using assms
    by (simp add: get_cursor_def MYSQL_ERROR_CODE_NO_HOST_def MYSQL_ERROR_CODE_ACCESS_DENIED_def)
  moreover have "other_code_message code = ''An error occured: Code '' @ str_int code"
    by (simp add: other_code_message_def)
  moreover have "\<forall>code'. other_code_message code' = other_code_message code \<longrightarrow> code' = code"
    using other_code_message_inj by blast
  ultimately show ?thesis using messages_distinct by blast
qed

theorem connect_failure_classified_witness:
  "cl_connect mysql (hostname (replica_a\<lparr>hostname := ''b''\<rparr>)) ''root'' ''pw'' fresh_server
     = (Some (OperationalError 2005 ''Unknown MySQL server host''), fresh_server)
   \<and> fst (get_cursor mysql (replica_a\<lparr>hostname := ''b''\<rparr>) (start fresh_server))
     = Inl (NoConnectionEstablished (replica_a\<lparr>hostname := ''b''\<rparr>) ''The host [b] does not exist.'')"
  using connect_failure_classified[of mysql "replica_a\<lparr>hostname := ''b''\<rparr>" "start fresh_server" 2005
      "''Unknown MySQL server host''" fresh_server]
  by (simp add: mysql_def mysql_connect_def replica_a_def fresh_server_def start_def no_host_message_def)

text \<open>
  C5. Take any run of \<^verbatim>\<open>get_values\<close>, for any client and either role, and the statements
  it recorded. If one of them raised an \<^verbatim>\<open>OperationalError\<close> with the unknown-database code
  1049, the call raises nothing and returns the empty list; so it does whenever the client
  opens the connection and the statements of the read (those of \<^verbatim>\<open>get_cursor\<close>, then the
  \<^verbatim>\<open>SELECT\<close>), run in order, stop at such an error. Whenever the client opens the connection
  and lets all these statements return, the call has issued exactly them, the \<^verbatim>\<open>SELECT\<close>
  last, and returns the first column of every row of the result set, in the order of
  retrieval: all the values, when no row is an empty tuple. On the reference server, for a
  descriptor it accepts: a database holding the values \<open>vs\<close> gives \<open>vs\<close>, and a server
  without the database gives the empty list.
\<close>

theorem get_values_unknown_database:
  assumes "get_values c d s = (r, s')" and "issued s' = issued s @ log"
  shows "(\<forall>stmt m. (stmt, Some (OperationalError 1049 m)) \<in> set log \<longrightarrow> r = Inr [])
       \<and> (fst (cl_connect c (hostname d) (username d) (password d) (world s)) = None
            \<and> (\<forall>x\<in>set log. snd x = None)
          \<longrightarrow> r = first_columns (cl_fetchall c (world s'))
              \<and> log = clean_run ((if master d then [CREATE_DATABASE, USE_DATABASE, CREATE_TABLE]
                                   else [USE_DATABASE]) @ [SELECT_VALUES])
              \<and> ((\<forall>row\<in>set (cl_fetchall c (world s')). row \<noteq> [])
                   \<longrightarrow> r = Inr (map hd (cl_fetchall c (world s')))))
       \<and> (\<forall>w' m s1.
             cl_connect c (hostname d) (username d) (password d) (world s) = (None, w')
             \<and> run_statements c
                  ((if master d then [CREATE_DATABASE, USE_DATABASE, CREATE_TABLE]
                    else [USE_DATABASE]) @ [SELECT_VALUES]) (s\<lparr>world := w'\<rparr>)
                 = (Inl (DBError (OperationalError 1049 m)), s1)
           \<longrightarrow> r = Inr [] \<and> s' = s1)
       \<and> (\<forall>w' s1.
             cl_connect c (hostname d) (username d) (password d) (world s) = (None, w')
             \<and> run_statements c
                  ((if master d then [CREATE_DATABASE, USE_DATABASE, CREATE_TABLE]
                    else [USE_DATABASE]) @ [SELECT_VALUES]) (s\<lparr>world := w'\<rparr>)
                 = (Inr (), s1)
           \<longrightarrow> r = first_columns (cl_fetchall c (world s1)) \<and> s' = s1
               \<and> log = clean_run ((if master d then [CREATE_DATABASE, USE_DATABASE, CREATE_TABLE]
                                    else [USE_DATABASE]) @ [SELECT_VALUES]))
       \<and> (\<forall>t vs. hostname d = srv_host (world t)
                 \<and> (username d, password d) \<in> set (srv_accounts (world t))
                 \<and> srv_schema (world t) = Provisioned vs
           \<longrightarrow> fst (get_values mysql d t) = Inr vs)
       \<and> (\<forall>t. hostname d = srv_host (world t)
              \<and> (username d, password d) \<in> set (srv_accounts (world t))
              \<and> srv_schema (world t) = NoDatabase
           \<longrightarrow> fst (get_values mysql d t) = Inr [])"
proof -
  let ?stmts = "(if master d then [CREATE_DATABASE, USE_DATABASE, CREATE_TABLE]
                 else [USE_DATABASE]) @ [SELECT_VALUES]"
  have stmts: "?stmts = setup_statements d @ [SELECT_VALUES]" by (simp add: setup_statements_def)
  have a: "\<forall>stmt m. (stmt, Some (OperationalError 1049 m)) \<in> set log \<longrightarrow> r = Inr []"
  proof (intro allI impI)
    fix stmt m
    assume "(stmt, Some (OperationalError 1049 m)) \<in> set log"
    from get_values_raised[OF assms this] assms(1) show "r = Inr []"
      by (simp add: get_values_def MYSQL_ERROR_CODE_UNKNOWN_DB_def)
  qed
  have b: "fst (cl_connect c (hostname d) (username d) (password d) (world s)) = None
            \<and> (\<forall>x\<in>set log. snd x = None)
          \<longrightarrow> r = first_columns (cl_fetchall c (world s')) \<and> log = clean_run ?stmts
              \<and> ((\<forall>row\<in>set (cl_fetchall c (world s')). row \<noteq> [])
                   \<longrightarrow> r = Inr (map hd (cl_fetchall c (world s'))))"
  proof
    assume h: "fst (cl_connect c (hostname d) (username d) (password d) (world s)) = None
       \<and> (\<forall>x\<in>set log. snd x = None)"
    then have h1: "fst (cl_connect c (hostname d) (username d) (password d) (world s)) = None"
      and h2: "\<forall>x\<in>set log. snd x = None" by simp_all
    from get_values_clean[OF assms h1 h2]
    have fc: "r = first_columns (cl_fetchall c (world s'))"
      and lg: "log = clean_run (setup_statements d @ [SELECT_VALUES])" by simp_all
    from fc have "(\<forall>row\<in>set (cl_fetchall c (world s')). row \<noteq> [])
                   \<longrightarrow> r = Inr (map hd (cl_fetchall c (world s')))"
      by (simp add: first_columns_nonempty)
    with fc lg stmts show "r = first_columns (cl_fetchall c (world s')) \<and> log = clean_run ?stmts
              \<and> ((\<forall>row\<in>set (cl_fetchall c (world s')). row \<noteq> [])
                   \<longrightarrow> r = Inr (map hd (cl_fetchall c (world s'))))" by simp
  qed
  have c: "\<forall>w' m s1.
             cl_connect c (hostname d) (username d) (password d) (world s) = (None, w')
             \<and> run_statements c ?stmts (s\<lparr>world := w'\<rparr>)
                 = (Inl (DBError (OperationalError 1049 m)), s1)
           \<longrightarrow> r = Inr [] \<and> s' = s1"
  proof (intro allI impI)
    fix w' m s1
    assume h: "cl_connect c (hostname d) (username d) (password d) (world s) = (None, w')
             \<and> run_statements c ?stmts (s\<lparr>world := w'\<rparr>)
                 = (Inl (DBError (OperationalError 1049 m)), s1)"
    then have cn: "cl_connect c (hostname d) (username d) (password d) (world s) = (None, w')"
      and run: "run_statements c (setup_statements d @ [SELECT_VALUES]) (s\<lparr>world := w'\<rparr>)
                 = (Inl (DBError (OperationalError 1049 m)), s1)"
      unfolding stmts by simp_all
    from get_values_run[OF cn run] assms(1) show "r = Inr [] \<and> s' = s1"
      by (simp add: MYSQL_ERROR_CODE_UNKNOWN_DB_def)
  qed
  have e: "\<forall>w' s1.
             cl_connect c (hostname d) (username d) (password d) (world s) = (None, w')
             \<and> run_statements c ?stmts (s\<lparr>world := w'\<rparr>) = (Inr (), s1)
           \<longrightarrow> r = first_columns (cl_fetchall c (world s1)) \<and> s' = s1 \<and> log = clean_run ?stmts"
  proof (intro allI impI)
    fix w' s1
    assume h: "cl_connect c (hostname d) (username d) (password d) (world s) = (None, w')
             \<and> run_statements c ?stmts (s\<lparr>world := w'\<rparr>) = (Inr (), s1)"
    then have cn: "cl_connect c (hostname d) (username d) (password d) (world s) = (None, w')"
      and run: "run_statements c (setup_statements d @ [SELECT_VALUES]) (s\<lparr>world := w'\<rparr>)
                 = (Inr (), s1)"
      unfolding stmts by simp_all
    from get_values_run[OF cn run] assms(1)
    have rs: "r = first_columns (cl_fetchall c (world s1))" "s' = s1" by simp_all
    from run_statements_log[OF run] assms(2) rs(2)
    have "log = clean_run (setup_statements d @ [SELECT_VALUES])" by simp
    with rs stmts show "r = first_columns (cl_fetchall c (world s1)) \<and> s' = s1 \<and> log = clean_run ?stmts"
      by simp
  qed
  have f: "\<forall>t vs. hostname d = srv_host (world t)
                 \<and> (username d, password d) \<in> set (srv_accounts (world t))
                 \<and> srv_schema (world t) = Provisioned vs
           \<longrightarrow> fst (get_values mysql d t) = Inr vs"
    using mysql_get_values_provisioned by blast
  have g: "\<forall>t. hostname d = srv_host (world t)
              \<and> (username d, password d) \<in> set (srv_accounts (world t))
              \<and> srv_schema (world t) = NoDatabase
           \<longrightarrow> fst (get_values mysql d t) = Inr []"
    using mysql_get_values_no_database by blast
  from a b c e f g show ?thesis by (intro conjI)
qed

theorem get_values_unknown_database_witness:
  "get_values mysql replica_a (start fresh_server)
     = (Inr [], \<lparr>world = fresh_server, issued = [(USE_DATABASE, Some (OperationalError 1049 ''Unknown database''))]\<rparr>)
   \<and> get_values mysql replica_a (start filled_server)
     = (Inr [''x'', ''y''],
        \<lparr>world = filled_server\<lparr>selected := True, result_rows := [[''x''], [''y'']]\<rparr>,
         issued = [(USE_DATABASE, None), (SELECT_VALUES, None)]\<rparr>)
   \<and> fst (get_values mysql primary_a (start filled_server)) = Inr [''x'', ''y'']"
proof -
  let ?s1 = "\<lparr>world = fresh_server,
              issued = [(USE_DATABASE, Some (OperationalError 1049 ''Unknown database''))]\<rparr>"
  let ?s2 = "\<lparr>world = filled_server\<lparr>selected := True, result_rows := [[''x''], [''y'']]\<rparr>,
              issued = [(USE_DATABASE, None), (SELECT_VALUES, None)]\<rparr>"
  have run1: "get_values mysql replica_a (start fresh_server) = (Inr [], ?s1)"
    by (simp add: client_defs)
  have run2: "get_values mysql replica_a (start filled_server) = (Inr [''x'', ''y''], ?s2)"
    by (simp add: client_defs)
  have log2: "issued ?s2 = issued (start filled_server) @ [(USE_DATABASE, None), (SELECT_VALUES, None)]"
    by (simp add: start_def)
  have "\<forall>t vs. hostname replica_a = srv_host (world t)
                 \<and> (username replica_a, password replica_a) \<in> set (srv_accounts (world t))
                 \<and> srv_schema (world t) = Provisioned vs
           \<longrightarrow> fst (get_values mysql replica_a t) = Inr vs"
    using get_values_unknown_database[OF run2 log2] by (elim conjE)
  obtain r3 s3 where run3: "get_values mysql primary_a (start filled_server) = (r3, s3)"
    by (cases "get_values mysql primary_a (start filled_server)")
  have "\<exists>log. issued s3 = issued (start filled_server) @ log"
    using run3 by (simp add: client_defs)
  then obtain log3 where log3: "issued s3 = issued (start filled_server) @ log3" by blast
  have all3: "\<forall>t vs. hostname primary_a = srv_host (world t)
                 \<and> (username primary_a, password primary_a) \<in> set (srv_accounts (world t))
                 \<and> srv_schema (world t) = Provisioned vs
           \<longrightarrow> fst (get_values mysql primary_a t) = Inr vs"
    using get_values_unknown_database[OF run3 log3] by (elim conjE)
  have "hostname primary_a = srv_host (world (start filled_server))
                 \<and> (username primary_a, password primary_a) \<in> set (srv_accounts (world (start filled_server)))
                 \<and> srv_schema (world (start filled_server)) = Provisioned [''x'', ''y'']"
    by (simp add: primary_a_def start_def filled_server_def fresh_server_def)
  with all3 have "fst (get_values mysql primary_a (start filled_server)) = Inr [''x'', ''y'']"
    by blast
  with run1 run2 show ?thesis by (intro conjI)
qed



text \<open>
  C6. Take any run of \<^verbatim>\<open>insert\<close> on a value \<open>v\<close> and the statements it recorded. Once
  \<^verbatim>\<open>get_cursor\<close> has returned the cursor, an \<^verbatim>\<open>INSERT\<close> is issued, and it carries the first
  200 characters of \<open>v\<close>: at most 200 characters, \<open>v\<close> itself when it has at most 200,
  exactly 200 when it has more. No \<^verbatim>\<open>INSERT\<close> with another value is ever issued. When the
  \<^verbatim>\<open>INSERT\<close> returned, the statement recorded right after it is \<^verbatim>\<open>COMMIT\<close>, and nothing
  follows. The whole call is the connection followed by the run of the statements of
  \<^verbatim>\<open>get_cursor\<close>, that \<^verbatim>\<open>INSERT\<close> and \<^verbatim>\<open>COMMIT\<close>, with the same result and the same final
  state; a run that returns has recorded all of them as returned. On the reference server,
  a write through a primary descriptor it accepts returns and leaves the table with the
  rows it had, followed by the first 200 characters of \<open>v\<close>.
\<close>

theorem insert_truncates_then_commits:
  assumes "insert_value c d v s = (r, s')" and "issued s' = issued s @ log"
  shows "(r = Inr () \<longrightarrow>
            log = clean_run (setup_statements d @ [INSERT_VALUE (take 200 v), COMMIT]))
       \<and> (\<forall>x out. (INSERT_VALUE x, out) \<in> set log \<longrightarrow> x = take 200 v)
       \<and> (\<forall>x. (INSERT_VALUE x, None) \<in> set log \<longrightarrow>
            (\<exists>out. log = clean_run (setup_statements d)
                            @ [(INSERT_VALUE (take 200 v), None), (COMMIT, out)]))
       \<and> length (take 200 v) \<le> 200
       \<and> (length v \<le> 200 \<longrightarrow> take 200 v = v)
       \<and> (200 < length v \<longrightarrow> length (take 200 v) = 200)
       \<and> (\<forall>s1. get_cursor c d s = (Inr (), s1) \<longrightarrow>
            (\<exists>out. (INSERT_VALUE (take 200 v), out) \<in> set log))
       \<and> (\<forall>s1. get_cursor c d s = (Inr (), s1) \<and> length v \<le> 200 \<longrightarrow>
            (\<exists>out. (INSERT_VALUE v, out) \<in> set log))
       \<and> (\<forall>w' r1 s1.
             cl_connect c (hostname d) (username d) (password d) (world s) = (None, w')
             \<and> run_statements c
                  ((if master d then [CREATE_DATABASE, USE_DATABASE, CREATE_TABLE]
                    else [USE_DATABASE]) @ [INSERT_VALUE (take 200 v), COMMIT]) (s\<lparr>world := w'\<rparr>)
                 = (r1, s1)
           \<longrightarrow> r = r1 \<and> s' = s1)
       \<and> (\<forall>t. hostname d = srv_host (world t)
              \<and> (username d, password d) \<in> set (srv_accounts (world t)) \<and> master d
           \<longrightarrow> fst (insert_value mysql d v t) = Inr ()
               \<and> srv_schema (world (snd (insert_value mysql d v t))) =
                   Provisioned ((case srv_schema (world t) of Provisioned vs \<Rightarrow> vs | _ \<Rightarrow> [])
                                 @ [take 200 v]))"
proof -
  have old: "(r = Inr () \<longrightarrow>
            log = clean_run (setup_statements d @ [INSERT_VALUE (take 200 v), COMMIT]))
       \<and> (\<forall>x out. (INSERT_VALUE x, out) \<in> set log \<longrightarrow> x = take 200 v)
       \<and> (\<forall>x. (INSERT_VALUE x, None) \<in> set log \<longrightarrow>
            (\<exists>out. log = clean_run (setup_statements d)
                            @ [(INSERT_VALUE (take 200 v), None), (COMMIT, out)]))"
  proof (cases "cl_connect c (hostname d) (username d) (password d) (world s)")
    case (Pair o' w')
    show ?thesis
    proof (cases o')
      case None
      let ?stmts = "setup_statements d @ [INSERT_VALUE (take 200 v), COMMIT]"
      from Pair None assms(1) have run: "run_statements c ?stmts (s\<lparr>world := w'\<rparr>) = (r, s')"
        by (simp add: insert_value_connected VALUE_LENGTH_def)
      from assms(2) have log: "issued s' = issued (s\<lparr>world := w'\<rparr>) @ log" by simp
      have a: "r = Inr () \<longrightarrow> log = clean_run ?stmts"
        using run_statements_log[OF run] log by auto
      have b: "x = take 200 v" if "(INSERT_VALUE x, out) \<in> set log" for x out
      proof -
        from run_statements_member[OF run log] that have "INSERT_VALUE x \<in> set ?stmts" by force
        then show ?thesis using setup_statements_no_insert[of x d]
          by (auto simp: statement_neq dest: INSERT_VALUE_inj)
      qed
      have c: "\<exists>out. log = clean_run (setup_statements d)
                              @ [(INSERT_VALUE (take 200 v), None), (COMMIT, out)]"
        if "(INSERT_VALUE x, None) \<in> set log" for x
      proof -
        from b[OF that] that have "(INSERT_VALUE (take 200 v), None) \<in> set log" by simp
        from run_statements_last_two[OF run log this setup_statements_no_insert INSERT_VALUE_not_COMMIT]
        show ?thesis .
      qed
      from a b c show ?thesis by auto
    next
      case (Some e)
      from insert_value_refused[of c d s e w' v] Pair Some assms have "log = []" "r \<noteq> Inr ()" by auto
      then show ?thesis by simp
    qed
  qed
  have lens: "length (take 200 v) \<le> 200" "length v \<le> 200 \<longrightarrow> take 200 v = v"
    "200 < length v \<longrightarrow> length (take 200 v) = 200" by simp_all
  have p: "\<forall>s1. get_cursor c d s = (Inr (), s1) \<longrightarrow>
            (\<exists>out. (INSERT_VALUE (take 200 v), out) \<in> set log)"
  proof (intro allI impI)
    fix s1
    assume "get_cursor c d s = (Inr (), s1)"
    from insert_issued[OF assms this]
    show "\<exists>out. (INSERT_VALUE (take 200 v), out) \<in> set log" by (simp add: VALUE_LENGTH_def)
  qed
  have q: "\<forall>s1. get_cursor c d s = (Inr (), s1) \<and> length v \<le> 200 \<longrightarrow>
            (\<exists>out. (INSERT_VALUE v, out) \<in> set log)"
  proof (intro allI impI)
    fix s1
    assume h: "get_cursor c d s = (Inr (), s1) \<and> length v \<le> 200"
    then have "take 200 v = v" by simp
    with p h show "\<exists>out. (INSERT_VALUE v, out) \<in> set log" by auto
  qed
  have e: "\<forall>w' r1 s1.
             cl_connect c (hostname d) (username d) (password d) (world s) = (None, w')
             \<and> run_statements c
                  ((if master d then [CREATE_DATABASE, USE_DATABASE, CREATE_TABLE]
                    else [USE_DATABASE]) @ [INSERT_VALUE (take 200 v), COMMIT]) (s\<lparr>world := w'\<rparr>)
                 = (r1, s1)
           \<longrightarrow> r = r1 \<and> s' = s1"
  proof (intro allI impI)
    fix w' r1 s1
    assume h: "cl_connect c (hostname d) (username d) (password d) (world s) = (None, w')
             \<and> run_statements c
                  ((if master d then [CREATE_DATABASE, USE_DATABASE, CREATE_TABLE]
                    else [USE_DATABASE]) @ [INSERT_VALUE (take 200 v), COMMIT]) (s\<lparr>world := w'\<rparr>)
                 = (r1, s1)"
    then have cn: "cl_connect c (hostname d) (username d) (password d) (world s) = (None, w')"
      and run: "run_statements c (setup_statements d @ [INSERT_VALUE (take 200 v), COMMIT])
                  (s\<lparr>world := w'\<rparr>) = (r1, s1)"
      by (simp_all add: setup_statements_def)
    from insert_value_connected[OF cn, of v] run assms(1) show "r = r1 \<and> s' = s1"
      by (simp add: VALUE_LENGTH_def)
  qed
  have f: "\<forall>t. hostname d = srv_host (world t)
              \<and> (username d, password d) \<in> set (srv_accounts (world t)) \<and> master d
           \<longrightarrow> fst (insert_value mysql d v t) = Inr ()
               \<and> srv_schema (world (snd (insert_value mysql d v t))) =
                   Provisioned ((case srv_schema (world t) of Provisioned vs \<Rightarrow> vs | _ \<Rightarrow> [])
                                 @ [take 200 v])"
  proof (intro allI impI)
    fix t :: "server session"
    assume "hostname d = srv_host (world t)
              \<and> (username d, password d) \<in> set (srv_accounts (world t)) \<and> master d"
    then have "hostname d = srv_host (world t)"
      and "(username d, password d) \<in> set (srv_accounts (world t))" and "master d" by simp_all
    from mysql_insert_value[OF this, of v]
    show "fst (insert_value mysql d v t) = Inr ()
               \<and> srv_schema (world (snd (insert_value mysql d v t))) =
                   Provisioned ((case srv_schema (world t) of Provisioned vs \<Rightarrow> vs | _ \<Rightarrow> [])
                                 @ [take 200 v])"
      by (simp add: VALUE_LENGTH_def)
  qed
  from old have o1: "r = Inr () \<longrightarrow>
            log = clean_run (setup_statements d @ [INSERT_VALUE (take 200 v), COMMIT])"
    and o2: "\<forall>x out. (INSERT_VALUE x, out) \<in> set log \<longrightarrow> x = take 200 v"
    and o3: "\<forall>x. (INSERT_VALUE x, None) \<in> set log \<longrightarrow>
            (\<exists>out. log = clean_run (setup_statements d)
                            @ [(INSERT_VALUE (take 200 v), None), (COMMIT, out)])"
    by blast+
  from o1 o2 o3 lens p q e f show ?thesis by (intro conjI)
qed

theorem insert_truncates_then_commits_witness:
  "insert_value mysql primary_a (replicate 500 CHR ''v'') (start fresh_server)
     = (Inr (), \<lparr>world = fresh_server\<lparr>srv_schema := Provisioned [replicate 200 CHR ''v''], selected := True\<rparr>,
                 issued = clean_run [CREATE_DATABASE, USE_DATABASE, CREATE_TABLE,
                            INSERT_VALUE (replicate 200 CHR ''v''), COMMIT]\<rparr>)
   \<and> insert_value mysql primary_a ''hello'' (start filled_server)
     = (Inr (), \<lparr>world = filled_server\<lparr>srv_schema := Provisioned [''x'', ''y'', ''hello''],
                                            selected := True\<rparr>,
                 issued = clean_run [CREATE_DATABASE, USE_DATABASE, CREATE_TABLE,
                            INSERT_VALUE ''hello'', COMMIT]\<rparr>)
   \<and> (\<exists>out. (INSERT_VALUE ''hello'', out)
          \<in> set (clean_run [CREATE_DATABASE, USE_DATABASE, CREATE_TABLE,
                            INSERT_VALUE ''hello'', COMMIT]))"
proof -
  let ?long = "replicate 500 CHR ''v''"
  let ?log1 = "clean_run [CREATE_DATABASE, USE_DATABASE, CREATE_TABLE,
                 INSERT_VALUE (replicate 200 CHR ''v''), COMMIT]"
  let ?s1 = "\<lparr>world = fresh_server\<lparr>srv_schema := Provisioned [replicate 200 CHR ''v''], selected := True\<rparr>,
              issued = ?log1\<rparr>"
  let ?log2 = "clean_run [CREATE_DATABASE, USE_DATABASE, CREATE_TABLE, INSERT_VALUE ''hello'', COMMIT]"
  let ?s2 = "\<lparr>world = filled_server\<lparr>srv_schema := Provisioned [''x'', ''y'', ''hello''],
                                         selected := True\<rparr>,
              issued = ?log2\<rparr>"
  have run1: "insert_value mysql primary_a ?long (start fresh_server) = (Inr (), ?s1)"
    by (simp add: client_defs clean_run_def)
  have run2: "insert_value mysql primary_a ''hello'' (start filled_server) = (Inr (), ?s2)"
    by (simp add: client_defs clean_run_def)
  have log2: "issued ?s2 = issued (start filled_server) @ ?log2" by (simp add: start_def)
  have cur: "get_cursor mysql primary_a (start filled_server)
     = (Inr (), \<lparr>world = filled_server\<lparr>selected := True\<rparr>,
                 issued = clean_run [CREATE_DATABASE, USE_DATABASE, CREATE_TABLE]\<rparr>)"
    by (simp add: client_defs clean_run_def)
  have short: "length ''hello'' \<le> 200" by simp
  have "\<forall>s1. get_cursor mysql primary_a (start filled_server) = (Inr (), s1) \<and> length ''hello'' \<le> 200
          \<longrightarrow> (\<exists>out. (INSERT_VALUE ''hello'', out) \<in> set ?log2)"
    using insert_truncates_then_commits[OF run2 log2] by (elim conjE)
  with cur short have "\<exists>out. (INSERT_VALUE ''hello'', out) \<in> set ?log2" by blast
  with run1 run2 show ?thesis by (intro conjI)
qed

text \<open>
  C7. Take any run of \<^verbatim>\<open>get_cursor\<close>, for any client, and the statements it recorded.
  When it returns a cursor, the record is \<^verbatim>\<open>CREATE DATABASE IF NOT EXISTS\<close>, \<^verbatim>\<open>USE\<close>,
  \<^verbatim>\<open>CREATE TABLE IF NOT EXISTS\<close> for a primary and the single \<^verbatim>\<open>USE\<close> for a replica, each
  returned. Whatever the outcome, a replica records nothing but \<^verbatim>\<open>USE\<close>, and a creation
  statement in the record means the role is primary. Both creation statements are of the
  if-not-exists form. On the reference server a connection that succeeded can be repeated:
  the second attempt succeeds as well and leaves the server as the first one left it.
\<close>

theorem provisioning_only_on_primary:
  assumes "get_cursor c d s = (r, s')" and "issued s' = issued s @ log"
  shows "(r = Inr () \<longrightarrow>
            log = clean_run (if master d then [CREATE_DATABASE, USE_DATABASE, CREATE_TABLE]
                             else [USE_DATABASE]))
       \<and> (\<not> master d \<longrightarrow> fst ` set log \<subseteq> {USE_DATABASE})
       \<and> (CREATE_DATABASE \<in> fst ` set log \<or> CREATE_TABLE \<in> fst ` set log \<longrightarrow> master d)
       \<and> CREATE_DATABASE = (''CREATE DATABASE IF NOT EXISTS ScalrTest'', NoArgs)
       \<and> CREATE_TABLE =
           (''CREATE TABLE IF NOT EXISTS ScalrValues (val CHAR(%s) CHARACTER SET utf8 COLLATE utf8_bin)'',
            IntArg 200)
       \<and> (\<forall>t t1. get_cursor mysql d t = (Inr (), t1) \<longrightarrow>
             (\<exists>t2. get_cursor mysql d t1 = (Inr (), t2) \<and> world t2 = world t1))"
proof -
  from get_cursor_member[OF assms]
  have m: "fst ` set log \<subseteq> set (setup_statements d)"
    and ok: "r = Inr () \<longrightarrow> log = clean_run (setup_statements d)" by simp_all
  have a: "r = Inr () \<longrightarrow>
            log = clean_run (if master d then [CREATE_DATABASE, USE_DATABASE, CREATE_TABLE]
                             else [USE_DATABASE])"
    using ok by (simp add: setup_statements_def)
  have b: "\<not> master d \<longrightarrow> fst ` set log \<subseteq> {USE_DATABASE}"
    using m by (auto simp add: setup_statements_def)
  have c: "CREATE_DATABASE \<in> fst ` set log \<or> CREATE_TABLE \<in> fst ` set log \<longrightarrow> master d"
  proof
    assume "CREATE_DATABASE \<in> fst ` set log \<or> CREATE_TABLE \<in> fst ` set log"
    with m have "CREATE_DATABASE \<in> set (setup_statements d) \<or> CREATE_TABLE \<in> set (setup_statements d)"
      by blast
    then show "master d" by (simp add: setup_statements_def statement_neq split: if_splits)
  qed
  have d: "\<forall>t t1. get_cursor mysql d t = (Inr (), t1) \<longrightarrow>
             (\<exists>t2. get_cursor mysql d t1 = (Inr (), t2) \<and> world t2 = world t1)"
    by (intro allI impI) (rule mysql_get_cursor_twice)
  have e: "CREATE_DATABASE = (''CREATE DATABASE IF NOT EXISTS ScalrTest'', NoArgs)"
    by (simp add: CREATE_DATABASE_def)
  have f: "CREATE_TABLE =
           (''CREATE TABLE IF NOT EXISTS ScalrValues (val CHAR(%s) CHARACTER SET utf8 COLLATE utf8_bin)'',
            IntArg 200)"
    by (simp add: CREATE_TABLE_def VALUE_LENGTH_def)
  from a b c e f d show ?thesis by (intro conjI)
qed

theorem provisioning_only_on_primary_witness:
  "get_cursor mysql primary_a (start fresh_server)
     = (Inr (), \<lparr>world = fresh_server\<lparr>srv_schema := Provisioned [], selected := True\<rparr>,
                 issued = clean_run [CREATE_DATABASE, USE_DATABASE, CREATE_TABLE]\<rparr>)
   \<and> get_cursor mysql replica_a (start filled_server)
     = (Inr (), \<lparr>world = filled_server\<lparr>selected := True\<rparr>, issued = clean_run [USE_DATABASE]\<rparr>)
   \<and> world (snd (get_cursor mysql primary_a (snd (get_cursor mysql primary_a (start fresh_server)))))
     = world (snd (get_cursor mysql primary_a (start fresh_server)))"
  using provisioning_only_on_primary[of mysql primary_a "start fresh_server" "Inr ()"
      "\<lparr>world = fresh_server\<lparr>srv_schema := Provisioned [], selected := True\<rparr>,
                 issued = clean_run [CREATE_DATABASE, USE_DATABASE, CREATE_TABLE]\<rparr>"
      "clean_run [CREATE_DATABASE, USE_DATABASE, CREATE_TABLE]"]
    provisioning_only_on_primary[of mysql replica_a "start filled_server" "Inr ()"
      "\<lparr>world = filled_server\<lparr>selected := True\<rparr>, issued = clean_run [USE_DATABASE]\<rparr>"
      "clean_run [USE_DATABASE]"]
  by (simp add: client_defs clean_run_def)

text \<open>
  C2, as the program has it. A connection attempt ends in one of three ways, decided by
  the client. When \<^verbatim>\<open>connect\<close> raises an \<^verbatim>\<open>OperationalError\<close>, \<^verbatim>\<open>get_cursor\<close> raises one
  \<^verbatim>\<open>NoConnectionEstablished\<close> with the diagnostic of the code. When \<^verbatim>\<open>connect\<close> raises
  another exception, that exception passes through. When \<^verbatim>\<open>connect\<close> returns,
  \<^verbatim>\<open>get_cursor\<close> either returns the cursor or lets through, unclassified, the exception of
  the statement it ran last: one of the three setup statements for a primary, \<^verbatim>\<open>USE\<close> for
  a replica. \<^verbatim>\<open>get_values\<close> relies on the last case: it catches the unknown-database error
  that \<^verbatim>\<open>USE\<close> raises inside \<^verbatim>\<open>get_cursor\<close>.
\<close>

theorem get_cursor_outcomes:
  "(case cl_connect c (hostname d) (username d) (password d) (world s) of
      (Some (OperationalError code m), w') \<Rightarrow>
        fst (get_cursor c d s) =
          Inl (NoConnectionEstablished d
                (if code = 2005 then no_host_message d
                 else if code = 1045 then access_denied_message d
                 else other_code_message code))
    | (Some (OtherDBError m), w') \<Rightarrow> fst (get_cursor c d s) = Inl (DBError (OtherDBError m))
    | (None, w') \<Rightarrow>
        fst (get_cursor c d s) = Inr () \<or>
        (\<exists>stmt e. stmt \<in> set (if master d then [CREATE_DATABASE, USE_DATABASE, CREATE_TABLE]
                                 else [USE_DATABASE])
           \<and> last (issued (snd (get_cursor c d s))) = (stmt, Some e)
           \<and> fst (get_cursor c d s) = Inl (DBError e)))"
proof (cases "cl_connect c (hostname d) (username d) (password d) (world s)")
  case (Pair o' w')
  show ?thesis
  proof (cases o')
    case None
    obtain r s' where g: "get_cursor c d s = (r, s')" by (cases "get_cursor c d s")
    with Pair None have run: "run_statements c (setup_statements d) (s\<lparr>world := w'\<rparr>) = (r, s')"
      by (simp add: get_cursor_connected)
    from run_statements_log[OF run]
    have "r = Inr () \<or> (\<exists>stmt e. stmt \<in> set (setup_statements d)
           \<and> last (issued s') = (stmt, Some e) \<and> r = Inl (DBError e))"
    proof
      assume "r = Inr () \<and> issued s' = issued (s\<lparr>world := w'\<rparr>) @ clean_run (setup_statements d)"
      then show ?thesis by simp
    next
      assume "\<exists>n e. n < length (setup_statements d) \<and> r = Inl (DBError e) \<and>
        issued s' = issued (s\<lparr>world := w'\<rparr>) @ clean_run (take n (setup_statements d))
                      @ [(setup_statements d ! n, Some e)]"
      then obtain n e where n: "n < length (setup_statements d)" and r: "r = Inl (DBError e)"
        and l: "issued s' = issued (s\<lparr>world := w'\<rparr>) @ clean_run (take n (setup_statements d))
                      @ [(setup_statements d ! n, Some e)]" by blast
      from l have "last (issued s') = (setup_statements d ! n, Some e)" by simp
      with n r nth_mem[OF n] show ?thesis by blast
    qed
    with Pair None g show ?thesis by (simp add: setup_statements_def)
  next
    case (Some e)
    with Pair show ?thesis
      by (cases e) (simp_all add: get_cursor_def MYSQL_ERROR_CODE_NO_HOST_def MYSQL_ERROR_CODE_ACCESS_DENIED_def)
  qed
qed

theorem get_cursor_outcomes_witness:
  "fst (get_cursor mysql (replica_a\<lparr>password := ''guess''\<rparr>) (start fresh_server))
     = Inl (NoConnectionEstablished (replica_a\<lparr>password := ''guess''\<rparr>)
              ''The username [root] or password [guess] is incorrect.'')
   \<and> fst (get_cursor mysql primary_a (start fresh_server)) = Inr ()"
  using get_cursor_outcomes[of mysql "replica_a\<lparr>password := ''guess''\<rparr>" "start fresh_server"]
    get_cursor_outcomes[of mysql primary_a "start fresh_server"]
  by (simp add: client_defs access_denied_message_def)

text \<open>
  The claim C2 as it was stated (every attempt returns a cursor or raises a classified
  \<^verbatim>\<open>NoConnectionEstablished\<close>) fails for a replica whose server has no database yet: the
  attempt ends with the raw \<^verbatim>\<open>OperationalError\<close> 1049 of \<^verbatim>\<open>USE ScalrTest\<close>.
\<close>

theorem get_cursor_unclassified:
  "fst (get_cursor mysql replica_a (start fresh_server))
     = Inl (DBError (OperationalError 1049 ''Unknown database''))"
  by (simp add: client_defs)

text \<open>
  C4. If one of the four files \<open>mysql-username\<close>, \<open>mysql-password\<close>, \<open>mysql-master\<close>,
  \<open>mysql-slave\<close> cannot be opened, the construction of \<^verbatim>\<open>ConnectionInfo\<close> raises
  \<^verbatim>\<open>NoConnectionInfo\<close> and no object results. If all four can be opened, the construction
  returns an object that has exactly the four attributes.
\<close>

theorem ConnectionInfo_init_all_or_nothing:
  "((\<exists>fname\<in>{''mysql-username'', ''mysql-password'', ''mysql-master'', ''mysql-slave''}.
       fs (path_join path fname) = None)
     \<longrightarrow> ConnectionInfo_init fs path = Inl NoConnectionInfo)
   \<and> ((\<forall>fname\<in>{''mysql-username'', ''mysql-password'', ''mysql-master'', ''mysql-slave''}.
         fs (path_join path fname) \<noteq> None)
     \<longrightarrow> (\<exists>self. ConnectionInfo_init fs path = Inr self
            \<and> dom self = {''username'', ''password'', ''_master'', ''_slave''}))"
proof (intro conjI impI)
  assume "\<exists>fname\<in>{''mysql-username'', ''mysql-password'', ''mysql-master'', ''mysql-slave''}.
       fs (path_join path fname) = None"
  then have "\<exists>fname\<in>fst ` set config_entries. fs (path_join path fname) = None"
    by (simp add: config_entries_def)
  then show "ConnectionInfo_init fs path = Inl NoConnectionInfo"
    unfolding ConnectionInfo_init_def by (rule load_entries_missing)
next
  assume "\<forall>fname\<in>{''mysql-username'', ''mysql-password'', ''mysql-master'', ''mysql-slave''}.
         fs (path_join path fname) \<noteq> None"
  then obtain u p m sl where f: "fs (path_join path ''mysql-username'') = Some u"
      "fs (path_join path ''mysql-password'') = Some p"
      "fs (path_join path ''mysql-master'') = Some m"
      "fs (path_join path ''mysql-slave'') = Some sl"
    by auto
  have "dom [''username'' \<mapsto> strip u, ''password'' \<mapsto> strip p, ''_master'' \<mapsto> strip m, ''_slave'' \<mapsto> strip sl]
     = {''username'', ''password'', ''_master'', ''_slave''}" by auto
  with init_value[OF f]
  show "\<exists>self. ConnectionInfo_init fs path = Inr self
            \<and> dom self = {''username'', ''password'', ''_master'', ''_slave''}" by blast
qed

theorem ConnectionInfo_init_all_or_nothing_witness:
  "partial_fs (path_join CONFIG_PATH ''mysql-slave'') = None
   \<and> ConnectionInfo_init partial_fs CONFIG_PATH = Inl NoConnectionInfo
   \<and> (\<exists>self. ConnectionInfo_init example_fs CONFIG_PATH = Inr self
            \<and> dom self = {''username'', ''password'', ''_master'', ''_slave''})"
  using ConnectionInfo_init_all_or_nothing[of partial_fs CONFIG_PATH]
    ConnectionInfo_init_all_or_nothing[of example_fs CONFIG_PATH]
  by (simp add: config_paths partial_fs_def example_fs_def)

text \<open>
  C8. For a configuration with all four files, the construction succeeds; the property
  \<^verbatim>\<open>master\<close> gives a new descriptor with the role flag set and the stripped content of
  \<open>mysql-master\<close> as host name, the property \<^verbatim>\<open>slave\<close> a new descriptor with the role flag
  unset and the stripped content of \<open>mysql-slave\<close> as host name, and both carry the same
  user name and the same password, the stripped contents of the two credential files.
\<close>

theorem master_slave_descriptors:
  assumes "fs (path_join path ''mysql-username'') = Some u"
      and "fs (path_join path ''mysql-password'') = Some p"
      and "fs (path_join path ''mysql-master'') = Some m"
      and "fs (path_join path ''mysql-slave'') = Some sl"
  shows "\<exists>self rm hm rs hs.
           ConnectionInfo_init fs path = Inr self
         \<and> ConnectionInfo_master self h = (Inr rm, hm)
         \<and> deref hm rm = Some \<lparr>hostname = strip m, username = strip u, password = strip p, master = True\<rparr>
         \<and> ConnectionInfo_slave self h = (Inr rs, hs)
         \<and> deref hs rs = Some \<lparr>hostname = strip sl, username = strip u, password = strip p, master = False\<rparr>"
proof -
  let ?self = "[''username'' \<mapsto> strip u, ''password'' \<mapsto> strip p, ''_master'' \<mapsto> strip m, ''_slave'' \<mapsto> strip sl]"
  let ?dm = "\<lparr>hostname = strip m, username = strip u, password = strip p, master = True\<rparr>"
  let ?ds = "\<lparr>hostname = strip sl, username = strip u, password = strip p, master = False\<rparr>"
  have i: "ConnectionInfo_init fs path = Inr ?self" using assms by (rule init_value)
  have "connection_information ?self True = Inr ?dm"
    by (simp add: connection_information_def getattr_def)
  from property_new[OF this, of h]
  have pm: "ConnectionInfo_master ?self h = (Inr (length h), h @ [?dm])"
    and dm: "deref (h @ [?dm]) (length h) = Some ?dm"
    by (simp_all add: ConnectionInfo_master_def)
  have "connection_information ?self False = Inr ?ds"
    by (simp add: connection_information_def getattr_def)
  from property_new[OF this, of h]
  have ps: "ConnectionInfo_slave ?self h = (Inr (length h), h @ [?ds])"
    and ds: "deref (h @ [?ds]) (length h) = Some ?ds"
    by (simp_all add: ConnectionInfo_slave_def)
  from i pm dm ps ds show ?thesis by blast
qed

theorem master_slave_descriptors_witness:
  "example_fs (path_join CONFIG_PATH ''mysql-username'') = Some ''root\<newline>''
   \<and> example_fs (path_join CONFIG_PATH ''mysql-password'') = Some ''pw\<newline>''
   \<and> example_fs (path_join CONFIG_PATH ''mysql-master'') = Some ''a\<newline>''
   \<and> example_fs (path_join CONFIG_PATH ''mysql-slave'') = Some ''b\<newline>''
   \<and> (\<exists>self rm hm rs hs.
           ConnectionInfo_init example_fs CONFIG_PATH = Inr self
         \<and> ConnectionInfo_master self [] = (Inr rm, hm)
         \<and> deref hm rm = Some primary_a
         \<and> ConnectionInfo_slave self [] = (Inr rs, hs)
         \<and> deref hs rs = Some (replica_a\<lparr>hostname := ''b''\<rparr>))"
  using master_slave_descriptors[of example_fs CONFIG_PATH "''root\<newline>''" "''pw\<newline>''" "''a\<newline>''"
      "''b\<newline>''" "[]"]
  by (simp add: config_paths example_fs_def strip_examples primary_a_def replica_a_def)

text \<open>
  C9, as the program has it. When the resolver returns, \<^verbatim>\<open>ips\<close> returns the comma-joined
  sorted list of the addresses: a sorted rearrangement of them, the same for every order
  in which the addresses arrive, so for address lists without repetition it depends on the
  set of addresses only. When the resolver raises \<^verbatim>\<open>gaierror\<close>, \<^verbatim>\<open>ips\<close> returns
  \<open>Resolution error:\<close>, a space and the message of the exception. An exception of any
  other class leaves \<^verbatim>\<open>ips\<close> as it was raised. So \<^verbatim>\<open>ips\<close> returns a string exactly when the
  resolver returns or raises \<^verbatim>\<open>gaierror\<close>.
\<close>

theorem ips_result:
  "(\<forall>name aliases addrs. r (hostname d) = Inr (name, aliases, addrs) \<longrightarrow>
        ips r d = Inr (join '','' (sort addrs))
      \<and> sorted (sort addrs) \<and> mset (sort addrs) = mset addrs
      \<and> (\<forall>r' d' name' aliases' addrs'.
            r' (hostname d') = Inr (name', aliases', addrs') \<and> mset addrs' = mset addrs
            \<longrightarrow> ips r' d' = ips r d)
      \<and> (\<forall>r' d' name' aliases' addrs'.
            r' (hostname d') = Inr (name', aliases', addrs') \<and> distinct addrs \<and> distinct addrs'
              \<and> set addrs' = set addrs
            \<longrightarrow> ips r' d' = ips r d))
   \<and> (\<forall>errno msg. r (hostname d) = Inl (GaiError errno msg) \<longrightarrow>
        ips r d = Inr (''Resolution error: '' @ msg))
   \<and> (\<forall>e. r (hostname d) = Inl e \<and> (\<forall>errno msg. e \<noteq> GaiError errno msg) \<longrightarrow>
        ips r d = Inl (SocketError e))
   \<and> ((\<exists>text. ips r d = Inr text) \<longleftrightarrow>
        (\<exists>name aliases addrs. r (hostname d) = Inr (name, aliases, addrs))
        \<or> (\<exists>errno msg. r (hostname d) = Inl (GaiError errno msg)))"
proof (intro conjI allI impI)
  fix name aliases addrs
  assume ok: "r (hostname d) = Inr (name, aliases, addrs)"
  then show v: "ips r d = Inr (join '','' (sort addrs))" by (simp add: ips_def)
  show "sorted (sort addrs)" by simp
  show "mset (sort addrs) = mset addrs" by simp
  {
    fix r' :: resolver and d' :: descriptor and name' :: string
      and aliases' :: "string list" and addrs' :: "string list"
    assume a: "r' (hostname d') = Inr (name', aliases', addrs') \<and> mset addrs' = mset addrs"
    then have v': "ips r' d' = Inr (join '','' (sort addrs'))" by (simp add: ips_def)
    from a have "sort addrs' = sort addrs" by (intro sort_permutation) simp
    with v v' show "ips r' d' = ips r d" by simp
  next
    fix r' :: resolver and d' :: descriptor and name' :: string
      and aliases' :: "string list" and addrs' :: "string list"
    assume a: "r' (hostname d') = Inr (name', aliases', addrs') \<and> distinct addrs \<and> distinct addrs'
              \<and> set addrs' = set addrs"
    then have "distinct addrs'" "distinct addrs" "set addrs' = set addrs" by simp_all
    then have "mset addrs' = mset addrs" by (simp only: set_eq_iff_mset_eq_distinct)
    then have "sort addrs' = sort addrs" by (rule sort_permutation)
    moreover from a have "ips r' d' = Inr (join '','' (sort addrs'))" by (simp add: ips_def)
    ultimately show "ips r' d' = ips r d" using v by simp
  }
next
  fix errno msg
  assume "r (hostname d) = Inl (GaiError errno msg)"
  then show "ips r d = Inr (''Resolution error: '' @ msg)" by (simp add: ips_def)
next
  fix e
  assume "r (hostname d) = Inl e \<and> (\<forall>errno msg. e \<noteq> GaiError errno msg)"
  then show "ips r d = Inl (SocketError e)" by (cases e) (simp_all add: ips_def)
next
  show "(\<exists>text. ips r d = Inr text) \<longleftrightarrow>
        (\<exists>name aliases addrs. r (hostname d) = Inr (name, aliases, addrs))
        \<or> (\<exists>errno msg. r (hostname d) = Inl (GaiError errno msg))"
  proof (cases "r (hostname d)")
    case (Inl e)
    then show ?thesis by (cases e) (simp_all add: ips_def)
  next
    case (Inr t)
    then show ?thesis by (cases t) (simp add: ips_def)
  qed
qed

theorem ips_result_witness:
  "example_resolver (hostname (replica_a\<lparr>hostname := ''b''\<rparr>)) = Inr (''b'', [], [''10.0.0.2'', ''10.0.0.10''])
   \<and> ips example_resolver (replica_a\<lparr>hostname := ''b''\<rparr>) = Inr ''10.0.0.10,10.0.0.2''
   \<and> example_resolver (hostname (replica_a\<lparr>hostname := ''nowhere''\<rparr>))
        = Inl (GaiError (- 2) ''Name or service not known'')
   \<and> ips example_resolver (replica_a\<lparr>hostname := ''nowhere''\<rparr>)
        = Inr ''Resolution error: Name or service not known''"
proof -
  let ?b = "replica_a\<lparr>hostname := ''b''\<rparr>" and ?n = "replica_a\<lparr>hostname := ''nowhere''\<rparr>"
  have rb: "example_resolver (hostname ?b) = Inr (''b'', [], [''10.0.0.2'', ''10.0.0.10''])"
    by (simp add: example_resolver_def)
  have rn: "example_resolver (hostname ?n) = Inl (GaiError (- 2) ''Name or service not known'')"
    by (simp add: example_resolver_def)
  from ips_result[of example_resolver ?b] rb
  have "ips example_resolver ?b = Inr (join '','' (sort [''10.0.0.2'', ''10.0.0.10'']))" by blast
  then have ib: "ips example_resolver ?b = Inr ''10.0.0.10,10.0.0.2''" by (simp add: example_sort)
  from ips_result[of example_resolver ?n] rn
  have "ips example_resolver ?n = Inr (''Resolution error: '' @ ''Name or service not known'')"
    by blast
  then have "ips example_resolver ?n = Inr ''Resolution error: Name or service not known''" by simp
  with rb rn ib show ?thesis by (intro conjI)
qed

text \<open>
  The claim C9 as it was stated (\<^verbatim>\<open>ips\<close> never raises) fails at the empty host name, which
  a \<open>mysql-master\<close> file holding only a newline gives: the resolver raises \<^verbatim>\<open>herror\<close>, which
  the \<^verbatim>\<open>except\<close> clause does not name, and \<^verbatim>\<open>ips\<close> ends with that exception.
\<close>

theorem ips_raises_herror:
  "strip ''\<newline>'' = []
   \<and> ips example_resolver (primary_a\<lparr>hostname := []\<rparr>) = Inl (SocketError (HError 1 ''Unknown host''))"
  by (simp add: strip_def is_space_def ips_def example_resolver_def primary_a_def)

text \<open>
  C1, at a configuration whose primary and replica are the same host \<open>a\<close>. The two
  descriptors resolve to the same address, and \<^verbatim>\<open>replicating()\<close> returns \<^verbatim>\<open>True\<close>: it
  compares the bound methods of two different objects and never resolves a name.
\<close>

theorem replicating_same_host:
  "ConnectionInfo_init same_host_fs CONFIG_PATH = Inr same_host_info
   \<and> fst (replicating same_host_info []) = Inr True
   \<and> connection_information same_host_info True = Inr primary_a
   \<and> connection_information same_host_info False = Inr replica_a
   \<and> ips example_resolver primary_a = Inr ''10.0.0.1''
   \<and> ips example_resolver replica_a = Inr ''10.0.0.1''"
proof -
  have fs: "same_host_fs ''/var/config/mysql-username'' = Some ''root\<newline>''"
    "same_host_fs ''/var/config/mysql-password'' = Some ''pw\<newline>''"
    "same_host_fs ''/var/config/mysql-master'' = Some ''a\<newline>''"
    "same_host_fs ''/var/config/mysql-slave'' = Some ''a\<newline>''"
    by (simp_all add: same_host_fs_def example_fs_def)
  have "ConnectionInfo_init same_host_fs CONFIG_PATH = Inr same_host_info"
    using init_value[of same_host_fs CONFIG_PATH, unfolded config_paths, OF fs]
    by (simp add: strip_examples same_host_info_def)
  moreover have m: "connection_information same_host_info True = Inr primary_a"
    by (simp add: connection_information_def getattr_def same_host_info_def primary_a_def)
  moreover have sl: "connection_information same_host_info False = Inr replica_a"
    by (simp add: connection_information_def getattr_def same_host_info_def replica_a_def)
  moreover have "fst (replicating same_host_info []) = Inr True"
    by (simp add: replicating_def ConnectionInfo_master_def ConnectionInfo_slave_def
        ConnectionInfo_property_def new_object_def m sl)
  moreover have "ips example_resolver primary_a = Inr ''10.0.0.1''"
    by (simp add: ips_def example_resolver_def primary_a_def)
  moreover have "ips example_resolver replica_a = Inr ''10.0.0.1''"
    by (simp add: ips_def example_resolver_def replica_a_def)
  ultimately show ?thesis by (intro conjI)
qed

end
